theory Spec2Isabelle
  imports Main
begin

section \<open>Errors and request bodies\<close>

text \<open>
  The three sources of an error in \<^verbatim>\<open>pkg/bbcloud/pullrequests.go\<close>:
  \<^item> \<open>Errorf m\<close>: an error built in this file with \<^verbatim>\<open>fmt.Errorf(m)\<close> (input validation);
  \<^item> \<open>TransportError d\<close>: an error handed back by \<^verbatim>\<open>c.http.NewRequest\<close> or
    \<^verbatim>\<open>c.http.Do\<close> and returned unchanged;
  \<^item> \<open>URLError d\<close>: an error of \<^verbatim>\<open>url.Parse\<close> on a page's next reference.
\<close>

datatype error = Errorf string | TransportError string | URLError string

text \<open>
  Request bodies are \<^verbatim>\<open>map[string]any\<close> values. The values stored in them are strings,
  booleans, ints, nested maps and slices of maps. A Go map has no key order, so an
  object is a partial function from keys to values.
\<close>

datatype json =
    JString string
  | JBool bool
  | JInt int
  | JObject "string \<Rightarrow> json option"
  | JArray "json list"

text \<open>
  Go's \<^verbatim>\<open>int\<close> is modelled by \<open>int\<close>: the code only compares, formats and slices with
  these values and never does arithmetic on them, so no wrap-around can occur.
\<close>

section \<open>Standard library functions the code calls\<close>

subsection \<open>\<^verbatim>\<open>strings.TrimSpace\<close>\<close>

text \<open>
  \<^verbatim>\<open>strings.TrimSpace\<close> removes leading and trailing runes with \<^verbatim>\<open>unicode.IsSpace\<close>.
  A Go string is a byte sequence; the runes that are spaces are
  U+0009..U+000D, U+0020, U+0085, U+00A0, U+1680, U+2000..U+200A, U+2028, U+2029,
  U+202F, U+205F and U+3000, listed here by their UTF-8 encodings. A byte sequence
  that is not a valid encoding decodes to U+FFFD, which is not a space, so trimming
  stops there.
\<close>

definition spaceRunes :: "string list" where
  "spaceRunes =
    [ [CHR 0x09], [CHR 0x0A], [CHR 0x0B], [CHR 0x0C], [CHR 0x0D], [CHR 0x20],
     [CHR 0xC2, CHR 0x85], [CHR 0xC2, CHR 0xA0],
     [CHR 0xE1, CHR 0x9A, CHR 0x80],
     [CHR 0xE2, CHR 0x80, CHR 0x80], [CHR 0xE2, CHR 0x80, CHR 0x81],
     [CHR 0xE2, CHR 0x80, CHR 0x82], [CHR 0xE2, CHR 0x80, CHR 0x83],
     [CHR 0xE2, CHR 0x80, CHR 0x84], [CHR 0xE2, CHR 0x80, CHR 0x85],
     [CHR 0xE2, CHR 0x80, CHR 0x86], [CHR 0xE2, CHR 0x80, CHR 0x87],
     [CHR 0xE2, CHR 0x80, CHR 0x88], [CHR 0xE2, CHR 0x80, CHR 0x89],
     [CHR 0xE2, CHR 0x80, CHR 0x8A],
     [CHR 0xE2, CHR 0x80, CHR 0xA8], [CHR 0xE2, CHR 0x80, CHR 0xA9],
     [CHR 0xE2, CHR 0x80, CHR 0xAF],
     [CHR 0xE2, CHR 0x81, CHR 0x9F],
     [CHR 0xE3, CHR 0x80, CHR 0x80] ]"

text \<open>The width in bytes of the space rune a string starts (ends) with, 0 if none.\<close>

definition leadingSpace :: "string \<Rightarrow> nat" where
  "leadingSpace s =
    (case find (\<lambda>e. take (length e) s = e) spaceRunes of
       None \<Rightarrow> 0
     | Some e \<Rightarrow> length e)"

definition trailingSpace :: "string \<Rightarrow> nat" where
  "trailingSpace s =
    (case find (\<lambda>e. length e \<le> length s \<and> drop (length s - length e) s = e) spaceRunes of
       None \<Rightarrow> 0
     | Some e \<Rightarrow> length e)"

lemma spaceRunes_nonempty: "e \<in> set spaceRunes \<Longrightarrow> e \<noteq> []"
  by (auto simp: spaceRunes_def)

lemma leadingSpace_less: "0 < leadingSpace s \<Longrightarrow> s \<noteq> []"
  unfolding leadingSpace_def
  by (auto split: option.splits simp: find_Some_iff dest!: nth_mem [of _ spaceRunes]
      dest: spaceRunes_nonempty)

lemma trailingSpace_less: "0 < trailingSpace s \<Longrightarrow> s \<noteq> []"
  unfolding trailingSpace_def
  by (auto split: option.splits simp: find_Some_iff)

function trimLeft :: "string \<Rightarrow> string" where
  "trimLeft s = (if leadingSpace s = 0 then s else trimLeft (drop (leadingSpace s) s))"
  by pat_completeness auto
termination
  by (relation "measure length") (use leadingSpace_less in \<open>force+\<close>)

function trimRight :: "string \<Rightarrow> string" where
  "trimRight s =
    (if trailingSpace s = 0 then s else trimRight (take (length s - trailingSpace s) s))"
  by pat_completeness auto
termination
  by (relation "measure length") (use trailingSpace_less in \<open>force+\<close>)

declare trimLeft.simps [simp del] trimRight.simps [simp del]

definition TrimSpace :: "string \<Rightarrow> string" where
  "TrimSpace s = trimRight (trimLeft s)"

subsection \<open>\<^verbatim>\<open>strings.EqualFold\<close>, \<^verbatim>\<open>strings.Join\<close>, \<^verbatim>\<open>fmt.Sprintf("%d")\<close>\<close>

definition asciiLower :: "char \<Rightarrow> char" where
  "asciiLower c =
    (let n = (of_char c :: nat) in if 65 \<le> n \<and> n \<le> 90 then char_of (n + 32) else c)"

text \<open>
  \<^verbatim>\<open>strings.EqualFold(s, "all")\<close>. The letters a and l have no case-folding partner
  outside ASCII, so a string folds to \<^verbatim>\<open>"all"\<close> exactly when its bytes are those of
  \<^verbatim>\<open>"all"\<close> up to ASCII case.
\<close>

definition EqualFold_all :: "string \<Rightarrow> bool" where
  "EqualFold_all s \<longleftrightarrow> map asciiLower s = ''all''"

fun Join :: "string list \<Rightarrow> string \<Rightarrow> string" where
  "Join [] sep = []"
| "Join [x] sep = x"
| "Join (x # y # ys) sep = x @ sep @ Join (y # ys) sep"

definition digit :: "nat \<Rightarrow> char" where
  "digit d = char_of (48 + d)"

function showNat :: "nat \<Rightarrow> string" where
  "showNat n = (if n < 10 then [digit n] else showNat (n div 10) @ [digit (n mod 10)])"
  by pat_completeness auto
termination
  by (relation "measure id") auto

declare showNat.simps [simp del]

text \<open>The verb \<^verbatim>\<open>%d\<close> of \<^verbatim>\<open>fmt.Sprintf\<close> on an int: decimal, with a minus sign.\<close>

definition showInt :: "int \<Rightarrow> string" where
  "showInt i = (if i < 0 then CHR ''-'' # showNat (nat (- i)) else showNat (nat i))"

subsection \<open>\<^verbatim>\<open>url.PathEscape\<close> and \<^verbatim>\<open>url.QueryEscape\<close>\<close>

definition unreserved :: "char \<Rightarrow> bool" where
  "unreserved c \<longleftrightarrow>
    (let n = (of_char c :: nat) in
       (97 \<le> n \<and> n \<le> 122) \<or> (65 \<le> n \<and> n \<le> 90) \<or> (48 \<le> n \<and> n \<le> 57))
    \<or> c \<in> set ''-_.~''"

definition hexDigit :: "nat \<Rightarrow> char" where
  "hexDigit d = ''0123456789ABCDEF'' ! d"

definition percent :: "char \<Rightarrow> string" where
  "percent c = [CHR ''%'', hexDigit (of_char c div 16), hexDigit (of_char c mod 16)]"

text \<open>
  In a path segment the reserved characters \<^verbatim>\<open>$ & + : = @\<close> stay as they are; every
  other byte that is not unreserved is percent-encoded.
\<close>

definition PathEscape :: "string \<Rightarrow> string" where
  "PathEscape s =
    concat (map (\<lambda>c. if unreserved c \<or> c \<in> set ''$&+:=@'' then [c] else percent c) s)"

text \<open>In a query component a space becomes \<^verbatim>\<open>+\<close> and every reserved character is encoded.\<close>

definition QueryEscape :: "string \<Rightarrow> string" where
  "QueryEscape s =
    concat (map (\<lambda>c. if unreserved c then [c]
                      else if c = CHR '' '' then ''+'' else percent c) s)"

subsection \<open>Library functions taken as parameters\<close>

text \<open>
  \<^verbatim>\<open>strings.ToUpper\<close> depends on the Unicode case tables and
  \<^verbatim>\<open>url.Parse(s)\<close> followed by \<^verbatim>\<open>RequestURI()\<close> on the URL grammar; both are
  parameters of the model. \<open>RequestURI\<close> returns \<open>Inl\<close> when \<^verbatim>\<open>url.Parse\<close> fails.
\<close>

record golib =
  ToUpper :: "string \<Rightarrow> string"
  RequestURI :: "string \<Rightarrow> string + string"

section \<open>Data model\<close>

text \<open>The anonymous structs nested in \<^verbatim>\<open>PullRequest\<close> and \<^verbatim>\<open>PullRequestComment\<close>.\<close>

record prAuthor =
  DisplayName :: string
  Username :: string

record prBranch =
  Name :: string

record prCommit =
  Hash :: string

record prRepository =
  Slug :: string

record prSource =
  Branch :: prBranch
  Commit :: prCommit
  Repository :: prRepository

record prDestination =
  Branch :: prBranch
  Repository :: prRepository

record prHref =
  Href :: string

record prLinks =
  HTML :: prHref

record prSummary =
  Raw :: string

record PullRequest =
  ID :: int
  Title :: string
  State :: string
  Author :: prAuthor
  Source :: prSource
  Destination :: prDestination
  Links :: prLinks
  Summary :: prSummary

record PullRequestListOptions =
  State :: string
  Limit :: int
  Mine :: string

record pullRequestListPage =
  Values :: "PullRequest list"
  Next :: string

record CreatePullRequestInput =
  Title :: string
  Description :: string
  Source :: string
  Destination :: string
  CloseSource :: bool
  Reviewers :: "string list"

text \<open>A nil pointer is \<open>None\<close>; a pointer to a string, also to the empty one, is \<open>Some\<close>.\<close>

record UpdatePullRequestInput =
  Title :: "string option"
  Description :: "string option"

record commentContent =
  Raw :: string
  Markup :: string
  HTML :: string

record commentLinks =
  HTML :: prHref
  Self :: prHref

text \<open>The type \<^verbatim>\<open>Account\<close> is declared elsewhere in the package.\<close>

typedecl Account

record PullRequestComment =
  ID :: int
  Content :: commentContent
  User :: "Account option"
  CreatedOn :: string
  UpdatedOn :: string
  Links :: commentLinks

record CommentPullRequestOptions =
  Text :: string
  FilePath :: string
  Line :: int
  LineFrom :: int

section \<open>The transport\<close>

text \<open>
  The client's \<^verbatim>\<open>c.http\<close> is declared elsewhere in the package and is a parameter of
  the model. \<open>NewRequest\<close> builds a request of some type \<open>'rq\<close> from method, path and
  optional body, or fails. \<^verbatim>\<open>Do(req, &out)\<close> performs one round trip against a world
  \<open>'w\<close> (the network and the server) and decodes the response into the type of
  \<^verbatim>\<open>out\<close>; there is one field per type the code decodes into. The context argument is
  part of the transport.
\<close>

record ('w, 'rq) transport =
  NewRequest :: "string \<Rightarrow> string \<Rightarrow> json option \<Rightarrow> string + 'rq"
  DoPage :: "'rq \<Rightarrow> 'w \<Rightarrow> (string + pullRequestListPage) \<times> 'w"
  DoPullRequest :: "'rq \<Rightarrow> 'w \<Rightarrow> (string + PullRequest) \<times> 'w"
  DoComment :: "'rq \<Rightarrow> 'w \<Rightarrow> (string + PullRequestComment) \<times> 'w"

text \<open>
  Every operation returns its Go result, the calls it has executed with \<^verbatim>\<open>Do\<close> (method,
  path and body of each, in order) and the world after them.
\<close>

type_synonym call = "string \<times> string \<times> json option"

type_synonym ('a, 'w) outcome = "(error + 'a) \<times> call list \<times> 'w"

section \<open>Listing pull requests\<close>

definition pageLen :: "int \<Rightarrow> int" where
  "pageLen limit = (if limit \<le> 0 \<or> limit > 100 then 20 else limit)"

definition listParams :: "golib \<Rightarrow> PullRequestListOptions \<Rightarrow> string list" where
  "listParams lib opts =
    [''pagelen='' @ showInt (pageLen (Limit opts))]
    @ (let state = TrimSpace (PullRequestListOptions.State opts) in
         if state \<noteq> '''' \<and> \<not> EqualFold_all state
         then [''state='' @ QueryEscape (ToUpper lib state)] else [])
    @ (if Mine opts \<noteq> ''''
       then [''q='' @ QueryEscape (''author.username='' @ [CHR 0x22] @ Mine opts @ [CHR 0x22])]
       else [])"

definition listPath :: "golib \<Rightarrow> string \<Rightarrow> string \<Rightarrow> PullRequestListOptions \<Rightarrow> string" where
  "listPath lib workspace repoSlug opts =
    ''/repositories/'' @ PathEscape workspace @ ''/'' @ PathEscape repoSlug
    @ ''/pullrequests?'' @ Join (listParams lib opts) ''&''"

text \<open>
  The loop \<^verbatim>\<open>for path != ""\<close> of \<^verbatim>\<open>ListPullRequests\<close>, with the accumulator \<open>prs\<close>. It
  may run forever (a server whose next references never end), so it is a partial
  function: \<open>None\<close> is a walk that does not return.
\<close>

partial_function (option) ListPullRequests_loop ::
  "('w, 'rq) transport \<Rightarrow> golib \<Rightarrow> int \<Rightarrow> string \<Rightarrow> PullRequest list \<Rightarrow> call list \<Rightarrow> 'w
    \<Rightarrow> (PullRequest list, 'w) outcome option"
where
  "ListPullRequests_loop t lib limit path prs calls w =
    (if path = '''' then Some (Inr prs, calls, w)
     else
       case NewRequest t ''GET'' path None of
         Inl e \<Rightarrow> Some (Inl (TransportError e), calls, w)
       | Inr req \<Rightarrow>
           (case DoPage t req w of
              (Inl e, w') \<Rightarrow> Some (Inl (TransportError e), calls @ [(''GET'', path, None)], w')
            | (Inr page, w') \<Rightarrow>
                (let prs' = prs @ Values page; calls' = calls @ [(''GET'', path, None)] in
                 if limit > 0 \<and> int (length prs') \<ge> limit
                 then Some (Inr (take (nat limit) prs'), calls', w')
                 else if Next page = '''' then Some (Inr prs', calls', w')
                 else
                   case RequestURI lib (Next page) of
                     Inl e \<Rightarrow> Some (Inl (URLError e), calls', w')
                   | Inr path' \<Rightarrow> ListPullRequests_loop t lib limit path' prs' calls' w')))"

definition ListPullRequests ::
  "('w, 'rq) transport \<Rightarrow> golib \<Rightarrow> string \<Rightarrow> string \<Rightarrow> PullRequestListOptions \<Rightarrow> 'w
    \<Rightarrow> (PullRequest list, 'w) outcome option"
where
  "ListPullRequests t lib workspace repoSlug opts w =
    (if workspace = '''' \<or> repoSlug = ''''
     then Some (Inl (Errorf ''workspace and repository slug are required''), [], w)
     else ListPullRequests_loop t lib (Limit opts) (listPath lib workspace repoSlug opts) [] [] w)"

section \<open>Fetching one pull request\<close>

definition pullRequestPath :: "string \<Rightarrow> string \<Rightarrow> int \<Rightarrow> string" where
  "pullRequestPath workspace repoSlug id' =
    ''/repositories/'' @ PathEscape workspace @ ''/'' @ PathEscape repoSlug
    @ ''/pullrequests/'' @ showInt id'"

definition GetPullRequest ::
  "('w, 'rq) transport \<Rightarrow> string \<Rightarrow> string \<Rightarrow> int \<Rightarrow> 'w \<Rightarrow> (PullRequest, 'w) outcome"
where
  "GetPullRequest t workspace repoSlug id' w =
    (if workspace = '''' \<or> repoSlug = ''''
     then (Inl (Errorf ''workspace and repository slug are required''), [], w)
     else
       let path = pullRequestPath workspace repoSlug id' in
       case NewRequest t ''GET'' path None of
         Inl e \<Rightarrow> (Inl (TransportError e), [], w)
       | Inr req \<Rightarrow>
           (case DoPullRequest t req w of
              (Inl e, w') \<Rightarrow> (Inl (TransportError e), [(''GET'', path, None)], w')
            | (Inr pr, w') \<Rightarrow> (Inr pr, [(''GET'', path, None)], w')))"

section \<open>Creating a pull request\<close>

text \<open>The checks on the input and the body built from it (the function up to the path).\<close>

definition createBody :: "CreatePullRequestInput \<Rightarrow> error + (string \<rightharpoonup> json)" where
  "createBody input =
    (if TrimSpace (CreatePullRequestInput.Title input) = ''''
     then Inl (Errorf ''title is required'')
     else if TrimSpace (CreatePullRequestInput.Source input) = ''''
          \<or> TrimSpace (CreatePullRequestInput.Destination input) = ''''
     then Inl (Errorf ''source and destination branches are required'')
     else
       let body =
             [''title'' \<mapsto> JString (CreatePullRequestInput.Title input),
              ''close_source_branch'' \<mapsto> JBool (CloseSource input),
              ''source'' \<mapsto>
                JObject [''branch'' \<mapsto>
                  JObject [''name'' \<mapsto> JString (CreatePullRequestInput.Source input)]],
              ''destination'' \<mapsto>
                JObject [''branch'' \<mapsto>
                  JObject [''name'' \<mapsto> JString (CreatePullRequestInput.Destination input)]]];
           body =
             (if CreatePullRequestInput.Description input \<noteq> ''''
              then body(''description'' \<mapsto> JString (CreatePullRequestInput.Description input))
              else body);
           body =
             (if length (Reviewers input) > 0
              then body(''reviewers'' \<mapsto>
                     JArray (map (\<lambda>reviewer. JObject [''username'' \<mapsto> JString reviewer])
                               (Reviewers input)))
              else body)
       in Inr body)"

definition CreatePullRequest ::
  "('w, 'rq) transport \<Rightarrow> string \<Rightarrow> string \<Rightarrow> CreatePullRequestInput \<Rightarrow> 'w
    \<Rightarrow> (PullRequest, 'w) outcome"
where
  "CreatePullRequest t workspace repoSlug input w =
    (if workspace = '''' \<or> repoSlug = ''''
     then (Inl (Errorf ''workspace and repository slug are required''), [], w)
     else
       case createBody input of
         Inl e \<Rightarrow> (Inl e, [], w)
       | Inr body \<Rightarrow>
           (let path = ''/repositories/'' @ PathEscape workspace @ ''/'' @ PathEscape repoSlug
                       @ ''/pullrequests'' in
            case NewRequest t ''POST'' path (Some (JObject body)) of
              Inl e \<Rightarrow> (Inl (TransportError e), [], w)
            | Inr req \<Rightarrow>
                (case DoPullRequest t req w of
                   (Inl e, w') \<Rightarrow>
                     (Inl (TransportError e), [(''POST'', path, Some (JObject body))], w')
                 | (Inr pr, w') \<Rightarrow> (Inr pr, [(''POST'', path, Some (JObject body))], w'))))"

section \<open>Updating a pull request\<close>

text \<open>
  The body assembled from the fields that are present, and the check
  \<^verbatim>\<open>len(body) == 0\<close>: the map has no key.
\<close>

definition updateBody :: "UpdatePullRequestInput \<Rightarrow> error + (string \<rightharpoonup> json)" where
  "updateBody input =
    (let body = Map.empty;
         body = (case UpdatePullRequestInput.Title input of
                   Some title \<Rightarrow> body(''title'' \<mapsto> JString title) | None \<Rightarrow> body);
         body = (case UpdatePullRequestInput.Description input of
                   Some description \<Rightarrow> body(''description'' \<mapsto> JString description)
                 | None \<Rightarrow> body)
     in if dom body = {}
        then Inl (Errorf ''at least one field (title or description) must be provided'')
        else Inr body)"

definition UpdatePullRequest ::
  "('w, 'rq) transport \<Rightarrow> string \<Rightarrow> string \<Rightarrow> int \<Rightarrow> UpdatePullRequestInput \<Rightarrow> 'w
    \<Rightarrow> (PullRequest, 'w) outcome"
where
  "UpdatePullRequest t workspace repoSlug id' input w =
    (if workspace = '''' \<or> repoSlug = ''''
     then (Inl (Errorf ''workspace and repository slug are required''), [], w)
     else
       case updateBody input of
         Inl e \<Rightarrow> (Inl e, [], w)
       | Inr body \<Rightarrow>
           (let path = pullRequestPath workspace repoSlug id' in
            case NewRequest t ''PUT'' path (Some (JObject body)) of
              Inl e \<Rightarrow> (Inl (TransportError e), [], w)
            | Inr req \<Rightarrow>
                (case DoPullRequest t req w of
                   (Inl e, w') \<Rightarrow>
                     (Inl (TransportError e), [(''PUT'', path, Some (JObject body))], w')
                 | (Inr pr, w') \<Rightarrow> (Inr pr, [(''PUT'', path, Some (JObject body))], w'))))"

section \<open>Commenting on a pull request\<close>

definition rangeError :: "int \<Rightarrow> int \<Rightarrow> string" where
  "rangeError lineFrom line =
    ''line range start ('' @ showInt lineFrom
    @ '') must be less than or equal to end ('' @ showInt line @ '')''"

text \<open>The check of the text, the payload and the checks of the inline location.\<close>

definition commentPayload :: "CommentPullRequestOptions \<Rightarrow> error + (string \<rightharpoonup> json)" where
  "commentPayload opts =
    (if TrimSpace (Text opts) = '''' then Inl (Errorf ''comment text is required'')
     else
       let payload = [''content'' \<mapsto> JObject [''raw'' \<mapsto> JString (Text opts)]] in
       if FilePath opts \<noteq> '''' then
         if Line opts \<le> 0
         then Inl (Errorf ''line number must be positive when file path is specified'')
         else
           let inline = [''path'' \<mapsto> JString (FilePath opts), ''to'' \<mapsto> JInt (Line opts)] in
           if LineFrom opts > 0 then
             if LineFrom opts > Line opts
             then Inl (Errorf (rangeError (LineFrom opts) (Line opts)))
             else Inr (payload(''inline'' \<mapsto> JObject (inline(''from'' \<mapsto> JInt (LineFrom opts)))))
           else Inr (payload(''inline'' \<mapsto> JObject inline))
       else Inr payload)"

definition CommentPullRequest ::
  "('w, 'rq) transport \<Rightarrow> string \<Rightarrow> string \<Rightarrow> int \<Rightarrow> CommentPullRequestOptions \<Rightarrow> 'w
    \<Rightarrow> (PullRequestComment, 'w) outcome"
where
  "CommentPullRequest t workspace repoSlug id' opts w =
    (if workspace = '''' \<or> repoSlug = ''''
     then (Inl (Errorf ''workspace and repository slug are required''), [], w)
     else
       case commentPayload opts of
         Inl e \<Rightarrow> (Inl e, [], w)
       | Inr payload \<Rightarrow>
           (let path = pullRequestPath workspace repoSlug id' @ ''/comments'' in
            case NewRequest t ''POST'' path (Some (JObject payload)) of
              Inl e \<Rightarrow> (Inl (TransportError e), [], w)
            | Inr req \<Rightarrow>
                (case DoComment t req w of
                   (Inl e, w') \<Rightarrow>
                     (Inl (TransportError e), [(''POST'', path, Some (JObject payload))], w')
                 | (Inr comment, w') \<Rightarrow>
                     (Inr comment, [(''POST'', path, Some (JObject payload))], w'))))"

section \<open>The pages a server supplies\<close>

text \<open>
  \<open>supplies t lib path w rps\<close>: asked for \<open>path\<close> in the world \<open>w\<close> and then for the
  request URI of each next reference in turn, the transport answers without error,
  and the paths asked for and the pages returned are \<open>rps\<close>, in order. The list is an
  initial stretch of the server's chain of pages; it is the whole chain when the next
  reference of its last page is empty.
\<close>

fun supplies ::
  "('w, 'rq) transport \<Rightarrow> golib \<Rightarrow> string \<Rightarrow> 'w \<Rightarrow> (string \<times> pullRequestListPage) list \<Rightarrow> bool"
where
  "supplies t lib path w [] = False"
| "supplies t lib path w ((p, page) # rest) =
    (p = path \<and> path \<noteq> '''' \<and>
     (case NewRequest t ''GET'' path None of
        Inl e \<Rightarrow> False
      | Inr req \<Rightarrow>
          (case DoPage t req w of
             (Inl e, w') \<Rightarrow> False
           | (Inr page', w') \<Rightarrow>
               page' = page \<and>
               (rest = [] \<or>
                (Next page \<noteq> '''' \<and>
                 (case RequestURI lib (Next page) of
                    Inl e \<Rightarrow> False
                  | Inr path' \<Rightarrow> supplies t lib path' w' rest))))))"

definition items :: "(string \<times> pullRequestListPage) list \<Rightarrow> PullRequest list" where
  "items rps = concat (map (\<lambda>(p, page). Values page) rps)"

definition getCalls :: "(string \<times> pullRequestListPage) list \<Rightarrow> call list" where
  "getCalls rps = map (\<lambda>(p, page). (''GET'', p, None)) rps"

text \<open>
  How many of the pages \<open>rps\<close> are fetched when \<open>acc\<close> items are already accumulated:
  all of them, or with a positive limit those up to and including the first page at
  which the accumulated count reaches the limit.
\<close>

fun pagesNeeded :: "int \<Rightarrow> nat \<Rightarrow> (string \<times> pullRequestListPage) list \<Rightarrow> nat" where
  "pagesNeeded limit acc [] = 0"
| "pagesNeeded limit acc ((p, page) # rest) =
    (if 0 < limit \<and> limit \<le> int (acc + length (Values page)) then 1
     else Suc (pagesNeeded limit (acc + length (Values page)) rest))"

text \<open>
  A validation error is an error built in this file with \<^verbatim>\<open>fmt.Errorf\<close>; the errors of
  the transport and of \<^verbatim>\<open>url.Parse\<close> are not.
\<close>

fun isValidationError :: "error + 'a \<Rightarrow> bool" where
  "isValidationError (Inl (Errorf m)) = True"
| "isValidationError _ = False"

text \<open>The Go result of an outcome, and the calls executed.\<close>

definition result :: "('a, 'w) outcome \<Rightarrow> error + 'a" where
  "result r = fst r"

definition executed :: "('a, 'w) outcome \<Rightarrow> call list" where
  "executed r = fst (snd r)"

section \<open>Decoding a creation body\<close>

text \<open>
  Modelled from the spec: the readers of single members that \<open>decodeCreateBody\<close> below
  uses. They read a member the way \<^verbatim>\<open>encoding/json\<close> fills a field of a struct: a
  missing key leaves the zero value, a value of the wrong type is an error (\<open>None\<close>).
\<close>

definition decodeString :: "json option \<Rightarrow> string option" where
  "decodeString v = (case v of None \<Rightarrow> Some '''' | Some (JString s) \<Rightarrow> Some s | Some _ \<Rightarrow> None)"

definition decodeBool :: "json option \<Rightarrow> bool option" where
  "decodeBool v = (case v of None \<Rightarrow> Some False | Some (JBool b) \<Rightarrow> Some b | Some _ \<Rightarrow> None)"

definition decodeBranch :: "json option \<Rightarrow> string option" where
  "decodeBranch v =
    (case v of
       None \<Rightarrow> Some ''''
     | Some (JObject ref) \<Rightarrow>
         (case ref ''branch'' of
            None \<Rightarrow> Some ''''
          | Some (JObject branch) \<Rightarrow> decodeString (branch ''name'')
          | Some _ \<Rightarrow> None)
     | Some _ \<Rightarrow> None)"

definition decodeReviewer :: "json \<Rightarrow> string option" where
  "decodeReviewer v = (case v of JObject user \<Rightarrow> decodeString (user ''username'') | _ \<Rightarrow> None)"

definition decodeReviewers :: "json option \<Rightarrow> string list option" where
  "decodeReviewers v =
    (case v of
       None \<Rightarrow> Some []
     | Some (JArray users) \<Rightarrow> those (map decodeReviewer users)
     | Some _ \<Rightarrow> None)"

text \<open>
  Modelled from the spec: the repository has no decoder for the body of a creation
  request; the round-trip property of the spec speaks of the decoded form of the body.
  This one reads the wire fields the spec lists (\<^verbatim>\<open>title\<close>, \<^verbatim>\<open>description\<close>,
  \<^verbatim>\<open>source.branch.name\<close>, \<^verbatim>\<open>destination.branch.name\<close>, \<^verbatim>\<open>close_source_branch\<close>,
  \<^verbatim>\<open>reviewers[].username\<close>) back into a \<^verbatim>\<open>CreatePullRequestInput\<close>.
\<close>

definition decodeCreateBody :: "(string \<rightharpoonup> json) \<Rightarrow> CreatePullRequestInput option" where
  "decodeCreateBody body =
    Option.bind (decodeString (body ''title'')) (\<lambda>title.
    Option.bind (decodeString (body ''description'')) (\<lambda>description.
    Option.bind (decodeBranch (body ''source'')) (\<lambda>source.
    Option.bind (decodeBranch (body ''destination'')) (\<lambda>destination.
    Option.bind (decodeBool (body ''close_source_branch'')) (\<lambda>closeSource.
    Option.bind (decodeReviewers (body ''reviewers'')) (\<lambda>reviewers.
      Some \<lparr>CreatePullRequestInput.Title = title,
            CreatePullRequestInput.Description = description,
            CreatePullRequestInput.Source = source,
            CreatePullRequestInput.Destination = destination,
            CloseSource = closeSource,
            Reviewers = reviewers\<rparr>))))))"

section \<open>A test server\<close>

text \<open>
  A transport in the manner of the test server of \<^verbatim>\<open>pullrequests_test.go\<close>: every request
  can be built and is represented by its method, path and body; the world is the number
  of round trips served so far. The \<open>n\<close>-th page request is answered with the \<open>n\<close>-th of
  the given pages, the others with a fixed pull request or comment.
\<close>

definition testPullRequest :: "int \<Rightarrow> PullRequest" where
  "testPullRequest n =
    \<lparr>PullRequest.ID = n, PullRequest.Title = ''Add feature'', PullRequest.State = ''OPEN'',
     Author = \<lparr>DisplayName = ''Ada'', Username = ''ada''\<rparr>,
     PullRequest.Source =
       \<lparr>prSource.Branch = \<lparr>Name = ''feature''\<rparr>, Commit = \<lparr>Hash = ''abc123''\<rparr>,
        prSource.Repository = \<lparr>Slug = ''repo''\<rparr>\<rparr>,
     PullRequest.Destination =
       \<lparr>prDestination.Branch = \<lparr>Name = ''main''\<rparr>, prDestination.Repository = \<lparr>Slug = ''repo''\<rparr>\<rparr>,
     PullRequest.Links = \<lparr>prLinks.HTML = \<lparr>Href = ''https://example.org/pr''\<rparr>\<rparr>,
     Summary = \<lparr>prSummary.Raw = ''''\<rparr>\<rparr>"

definition testComment :: PullRequestComment where
  "testComment =
    \<lparr>PullRequestComment.ID = 123,
     Content = \<lparr>commentContent.Raw = ''ok'', Markup = '''', commentContent.HTML = ''''\<rparr>,
     User = None, CreatedOn = '''', UpdatedOn = '''',
     PullRequestComment.Links =
       \<lparr>commentLinks.HTML = \<lparr>Href = ''''\<rparr>, Self = \<lparr>Href = ''''\<rparr>\<rparr>\<rparr>"

definition testServer :: "pullRequestListPage list \<Rightarrow> (nat, call) transport" where
  "testServer pages =
    \<lparr>NewRequest = (\<lambda>method path body. Inr (method, path, body)),
     DoPage = (\<lambda>req n. if n < length pages then (Inr (pages ! n), Suc n)
                         else (Inl ''404 Not Found'', Suc n)),
     DoPullRequest = (\<lambda>req n. (Inr (testPullRequest 1), Suc n)),
     DoComment = (\<lambda>req n. (Inr testComment, Suc n))\<rparr>"

definition asciiUpper :: "char \<Rightarrow> char" where
  "asciiUpper c =
    (let n = (of_char c :: nat) in if 97 \<le> n \<and> n \<le> 122 then char_of (n - 32) else c)"

text \<open>
  Library parameters for inputs in ASCII whose next references are already request
  URIs (a path with its query).
\<close>

definition testLib :: golib where
  "testLib = \<lparr>ToUpper = map asciiUpper, RequestURI = Inr\<rparr>"

definition testPage :: "int list \<Rightarrow> string \<Rightarrow> pullRequestListPage" where
  "testPage ids next = \<lparr>Values = map testPullRequest ids, Next = next\<rparr>"

section \<open>Definitions for the statements\<close>

text \<open>
  The fields of an update that are present, by their wire names: what the payload of
  an update must hold, and nothing else.
\<close>

definition presentFields :: "UpdatePullRequestInput \<Rightarrow> (string \<rightharpoonup> json)" where
  "presentFields input =
    (\<lambda>k. if k = ''title'' then map_option JString (UpdatePullRequestInput.Title input)
         else if k = ''description''
         then map_option JString (UpdatePullRequestInput.Description input)
         else None)"

text \<open>The member \<open>k\<close> of a value that is an object, if it has one.\<close>

fun field :: "string \<Rightarrow> json option \<Rightarrow> json option" where
  "field k (Some (JObject members)) = members k"
| "field k _ = None"

text \<open>Three pages of two pull requests each, linked by their next references.\<close>

definition threePages :: "pullRequestListPage list" where
  "threePages = [testPage [1, 2] ''/p2'', testPage [3, 4] ''/p3'', testPage [5, 6] '''']"

section \<open>Properties of the page walk\<close>

lemma supplies_ConsE:
  assumes "supplies t lib path w ((p, page) # rest)"
  obtains req w1 where "p = path" "path \<noteq> ''''"
    "NewRequest t ''GET'' path None = Inr req" "DoPage t req w = (Inr page, w1)"
    "rest = [] \<or> (Next page \<noteq> '''' \<and>
       (case RequestURI lib (Next page) of
          Inl e \<Rightarrow> False
        | Inr path' \<Rightarrow> supplies t lib path' w1 rest))"
proof (cases "NewRequest t ''GET'' path None")
  case (Inl e)
  with assms show ?thesis by simp
next
  case (Inr req)
  obtain r w1 where d: "DoPage t req w = (r, w1)" by (cases "DoPage t req w")
  show ?thesis
  proof (cases r)
    case (Inl e)
    with assms Inr d show ?thesis by simp
  next
    case (Inr page')
    with assms \<open>NewRequest t ''GET'' path None = Inr req\<close> d that show ?thesis by simp
  qed
qed

lemma items_simps [simp]:
  "items [] = []" "items ((p, page) # rest) = Values page @ items rest"
  by (simp_all add: items_def)

lemma getCalls_simps [simp]:
  "getCalls [] = []" "getCalls ((p, page) # rest) = (''GET'', p, None) # getCalls rest"
  by (simp_all add: getCalls_def)

lemma length_getCalls [simp]: "length (getCalls rps) = length rps"
  by (simp add: getCalls_def)

text \<open>
  The walk over pages that the server supplies: when the stretch \<open>rps\<close> ends the chain
  or holds enough items for a positive limit, the loop returns, with the accumulated
  items (cut to the limit when that is positive) and the calls it needed.
\<close>

lemma loop_supplies:
  "supplies t lib path w rps \<Longrightarrow>
   Next (snd (last rps)) = '''' \<or> (0 < limit \<and> limit \<le> int (length prs + length (items rps))) \<Longrightarrow>
   \<exists>w'. ListPullRequests_loop t lib limit path prs calls w =
     Some (Inr (if 0 < limit then take (nat limit) (prs @ items rps) else prs @ items rps),
           calls @ getCalls (take (pagesNeeded limit (length prs) rps) rps), w')"
proof (induction rps arbitrary: path w prs calls)
  case Nil
  then show ?case by simp
next
  case (Cons rp rest)
  obtain p page where rp: "rp = (p, page)" by (cases rp)
  have s: "supplies t lib path w ((p, page) # rest)"
    using Cons.prems(1) unfolding rp .
  from s obtain req w1 where
    p: "p = path" "path \<noteq> ''''" and
    nr: "NewRequest t ''GET'' path None = Inr req" and
    dp: "DoPage t req w = (Inr page, w1)" and
    rest: "rest = [] \<or> (Next page \<noteq> '''' \<and>
       (case RequestURI lib (Next page) of
          Inl e \<Rightarrow> False
        | Inr path' \<Rightarrow> supplies t lib path' w1 rest))"
    by (rule supplies_ConsE)
  show ?case
  proof (cases "0 < limit \<and> limit \<le> int (length prs + length (Values page))")
    case True
    then have "nat limit \<le> length prs + length (Values page)" by linarith
    with True show ?thesis
      using p nr dp rp
      by (subst ListPullRequests_loop.simps) simp
  next
    case notyet: False
    show ?thesis
    proof (cases "rest = []")
      case True
      with Cons.prems(2) notyet rp have nx: "Next page = ''''"
        by auto
      show ?thesis
        using p nr dp rp notyet nx True
        by (subst ListPullRequests_loop.simps) auto
    next
      case False
      with rest obtain path' where
        nx: "Next page \<noteq> ''''" and ru: "RequestURI lib (Next page) = Inr path'" and
        sup: "supplies t lib path' w1 rest"
        by (auto split: sum.splits)
      from Cons.prems(2) False rp
      have fin: "Next (snd (last rest)) = '''' \<or>
          (0 < limit \<and> limit \<le> int (length (prs @ Values page) + length (items rest)))"
        by auto
      from Cons.IH [OF sup fin, of "calls @ [(''GET'', path, None)]"]
      obtain w' where
        ih: "ListPullRequests_loop t lib limit path' (prs @ Values page)
               (calls @ [(''GET'', path, None)]) w1 =
          Some (Inr (if 0 < limit then take (nat limit) ((prs @ Values page) @ items rest)
                     else (prs @ Values page) @ items rest),
                (calls @ [(''GET'', path, None)]) @
                  getCalls (take (pagesNeeded limit (length (prs @ Values page)) rest) rest), w')"
        by blast
      show ?thesis
        using p nr dp rp notyet nx ru ih
        by (subst ListPullRequests_loop.simps) auto
    qed
  qed
qed

lemma pagesNeeded_le: "pagesNeeded limit acc rps \<le> length rps"
  by (induction rps arbitrary: acc) auto

text \<open>Every page but the last one fetched leaves the accumulated count below the limit.\<close>

lemma pagesNeeded_minimal:
  "int acc < limit \<Longrightarrow>
   int (acc + length (items (take (pagesNeeded limit acc rps - 1) rps))) < limit"
proof (induction rps arbitrary: acc)
  case Nil
  then show ?case by simp
next
  case (Cons rp rest)
  obtain p page where rp: "rp = (p, page)" by (cases rp)
  show ?case
  proof (cases "0 < limit \<and> limit \<le> int (acc + length (Values page))")
    case True
    with Cons.prems rp show ?thesis by simp
  next
    case False
    with Cons.prems have below: "int (acc + length (Values page)) < limit" by auto
    show ?thesis
    proof (cases "pagesNeeded limit (acc + length (Values page)) rest")
      case 0
      with False Cons.prems rp show ?thesis by simp
    next
      case (Suc k)
      from Cons.IH [OF below] Suc False rp show ?thesis
        by (simp add: add.assoc)
    qed
  qed
qed

lemma result_simps [simp]: "result (r, c, w) = r"
  by (simp add: result_def)

lemma executed_simps [simp]: "executed (r, c, w) = c"
  by (simp add: executed_def)

lemma updateBody_cases:
  "updateBody input =
    (if UpdatePullRequestInput.Title input = None \<and> UpdatePullRequestInput.Description input = None
     then Inl (Errorf ''at least one field (title or description) must be provided'')
     else Inr (presentFields input))"
  by (auto simp: updateBody_def presentFields_def Let_def fun_eq_iff split: option.splits)

section \<open>Values at the inputs of the examples\<close>

text \<open>The library models at some inputs.\<close>

lemma library_samples:
  "TrimSpace ([CHR 0xC2, CHR 0xA0] @ ''x y'' @ [CHR 0xE2, CHR 0x80, CHR 0x80, CHR 0x0A]) = ''x y''"
  "PathEscape ''my team/a+b'' = ''my%20team%2Fa+b''"
  "QueryEscape (''author.username='' @ [CHR 0x22] @ ''jo e'' @ [CHR 0x22]) =
     ''author.username%3D%22jo+e%22''"
  "showInt (- 120) = ''-120''"
  "EqualFold_all ''ALl''"
  "listPath testLib ''my team'' ''repo''
     \<lparr>PullRequestListOptions.State = '' open '', Limit = 500, Mine = ''bob''\<rparr> =
     ''/repositories/my%20team/repo/pullrequests?pagelen=20&state=OPEN&q=author.username%3D%22bob%22''"
  by code_simp+

lemma TrimSpace_test: "TrimSpace ''test'' = ''test''"
  by code_simp

lemma TrimSpace_empty: "TrimSpace '''' = ''''"
  by code_simp

lemma TrimSpace_blank: "TrimSpace [CHR 0x20, CHR 0x09, CHR 0x20] = ''''"
  by code_simp

lemma rangeError_5_0:
  "rangeError 5 0 = ''line range start (5) must be less than or equal to end (0)''"
  by code_simp

lemma path_ws_repo_1_comments:
  "pullRequestPath ''ws'' ''repo'' 1 @ ''/comments'' = ''/repositories/ws/repo/pullrequests/1/comments''"
  by code_simp

lemma TrimSpace_samples:
  "TrimSpace ''Looks good!'' = ''Looks good!''"
  "TrimSpace ''Fix this'' = ''Fix this''"
  "TrimSpace ''Refactor this block'' = ''Refactor this block''"
  by code_simp+

lemma path_ws_repo_7:
  "pullRequestPath ''ws'' ''repo'' 7 = ''/repositories/ws/repo/pullrequests/7''"
  by code_simp

lemma paths_samples:
  "pullRequestPath ''ws'' ''repo'' 0 = ''/repositories/ws/repo/pullrequests/0''"
  "pullRequestPath ''ws'' ''repo'' (- 3) = ''/repositories/ws/repo/pullrequests/-3''"
  "pullRequestPath ''ws'' ''repo'' (- 3) @ ''/comments'' =
     ''/repositories/ws/repo/pullrequests/-3/comments''"
  by code_simp+

lemma listPath_3:
  "listPath testLib ''ws'' ''repo'' \<lparr>PullRequestListOptions.State = '''', Limit = 3, Mine = ''''\<rparr> =
     ''/repositories/ws/repo/pullrequests?pagelen=3''"
  by code_simp

lemma listPath_10:
  "listPath testLib ''ws'' ''repo'' \<lparr>PullRequestListOptions.State = '''', Limit = 10, Mine = ''''\<rparr> =
     ''/repositories/ws/repo/pullrequests?pagelen=10''"
  by code_simp


lemma listPath_nonempty: "listPath lib workspace repoSlug opts \<noteq> ''''"
  by (simp add: listPath_def)

section \<open>Validation and paths of the single-request operations\<close>

lemma GetPullRequest_validation:
  "isValidationError (result (GetPullRequest t workspace repoSlug i w))
    \<longleftrightarrow> workspace = '''' \<or> repoSlug = ''''"
  by (auto simp: GetPullRequest_def Let_def split: sum.splits prod.splits)

lemma GetPullRequest_message:
  "result (GetPullRequest t workspace repoSlug i w) = Inl (Errorf m)
    \<Longrightarrow> m = ''workspace and repository slug are required''"
  by (auto simp: GetPullRequest_def Let_def split: sum.splits prod.splits if_splits)

lemma GetPullRequest_path:
  "call \<in> set (executed (GetPullRequest t workspace repoSlug i w))
    \<Longrightarrow> fst (snd call) = pullRequestPath workspace repoSlug i"
  by (auto simp: GetPullRequest_def Let_def split: sum.splits prod.splits if_splits)

lemma UpdatePullRequest_validation:
  "isValidationError (result (UpdatePullRequest t workspace repoSlug i input w))
    \<longleftrightarrow> workspace = '''' \<or> repoSlug = ''''
      \<or> (UpdatePullRequestInput.Title input = None
          \<and> UpdatePullRequestInput.Description input = None)"
  by (auto simp: UpdatePullRequest_def updateBody_cases Let_def split: sum.splits prod.splits)

lemma UpdatePullRequest_message:
  "result (UpdatePullRequest t workspace repoSlug i input w) = Inl (Errorf m)
    \<Longrightarrow> m = ''workspace and repository slug are required''
      \<or> m = ''at least one field (title or description) must be provided''"
  by (auto simp: UpdatePullRequest_def updateBody_cases Let_def
      split: sum.splits prod.splits if_splits)

lemma UpdatePullRequest_path:
  "call \<in> set (executed (UpdatePullRequest t workspace repoSlug i input w))
    \<Longrightarrow> fst (snd call) = pullRequestPath workspace repoSlug i"
  by (auto simp: UpdatePullRequest_def Let_def split: sum.splits prod.splits if_splits)

lemma commentPayload_cases:
  "commentPayload opts =
    (if TrimSpace (Text opts) = '''' then Inl (Errorf ''comment text is required'')
     else if FilePath opts = ''''
     then Inr [''content'' \<mapsto> JObject [''raw'' \<mapsto> JString (Text opts)]]
     else if Line opts \<le> 0
     then Inl (Errorf ''line number must be positive when file path is specified'')
     else if 0 < LineFrom opts \<and> Line opts < LineFrom opts
     then Inl (Errorf (rangeError (LineFrom opts) (Line opts)))
     else Inr [''content'' \<mapsto> JObject [''raw'' \<mapsto> JString (Text opts)],
               ''inline'' \<mapsto> JObject
                 (if 0 < LineFrom opts
                  then [''path'' \<mapsto> JString (FilePath opts), ''to'' \<mapsto> JInt (Line opts),
                        ''from'' \<mapsto> JInt (LineFrom opts)]
                  else [''path'' \<mapsto> JString (FilePath opts), ''to'' \<mapsto> JInt (Line opts)])])"
  by (simp add: commentPayload_def Let_def)

lemma CommentPullRequest_validation:
  "isValidationError (result (CommentPullRequest t workspace repoSlug i opts w))
    \<longleftrightarrow> workspace = '''' \<or> repoSlug = '''' \<or> isValidationError (commentPayload opts)"
proof (cases "commentPayload opts")
  case (Inl e)
  then have "\<exists>m. e = Errorf m"
    by (auto simp: commentPayload_cases split: if_splits)
  with Inl show ?thesis
    by (auto simp: CommentPullRequest_def)
next
  case (Inr payload)
  then show ?thesis
    by (auto simp: CommentPullRequest_def Let_def split: sum.splits prod.splits)
qed

lemma commentPayload_valid:
  "isValidationError (commentPayload opts)
    \<longleftrightarrow> \<not> (TrimSpace (Text opts) \<noteq> ''''
          \<and> (FilePath opts \<noteq> '''' \<longrightarrow>
               0 < Line opts \<and> (0 < LineFrom opts \<longrightarrow> LineFrom opts \<le> Line opts)))"
  by (auto simp: commentPayload_cases)

lemma CommentPullRequest_message:
  assumes "result (CommentPullRequest t workspace repoSlug i opts w) = Inl (Errorf m)"
  shows "m = ''workspace and repository slug are required''
      \<or> m = ''comment text is required''
      \<or> m = ''line number must be positive when file path is specified''
      \<or> m = rangeError (LineFrom opts) (Line opts)"
proof (cases "commentPayload opts")
  case (Inl e)
  then have "e = Errorf ''comment text is required''
      \<or> e = Errorf ''line number must be positive when file path is specified''
      \<or> e = Errorf (rangeError (LineFrom opts) (Line opts))"
    by (auto simp: commentPayload_cases split: if_splits)
  with Inl assms show ?thesis
    by (auto simp: CommentPullRequest_def split: if_splits)
next
  case (Inr payload)
  with assms show ?thesis
    by (auto simp: CommentPullRequest_def Let_def split: sum.splits prod.splits if_splits)
qed

lemma CommentPullRequest_path:
  "call \<in> set (executed (CommentPullRequest t workspace repoSlug i opts w))
    \<Longrightarrow> fst (snd call) = pullRequestPath workspace repoSlug i @ ''/comments''"
  by (cases "commentPayload opts")
    (auto simp: CommentPullRequest_def Let_def split: sum.splits prod.splits if_splits)

section \<open>Properties of listing\<close>

lemma ListPullRequests_supplies:
  assumes "workspace \<noteq> ''''" "repoSlug \<noteq> ''''"
    and "supplies t lib (listPath lib workspace repoSlug opts) w rps"
    and "Next (snd (last rps)) = ''''
         \<or> (0 < Limit opts \<and> Limit opts \<le> int (length (items rps)))"
  shows "\<exists>w'. ListPullRequests t lib workspace repoSlug opts w =
     Some (Inr (if 0 < Limit opts then take (nat (Limit opts)) (items rps) else items rps),
           getCalls (take (pagesNeeded (Limit opts) 0 rps) rps), w')"
  using loop_supplies [OF assms(3), of "Limit opts" "[]" "[]"] assms(1,2,4)
  by (auto simp: ListPullRequests_def)




lemma supplies_threePages:
  "path \<noteq> '''' \<Longrightarrow>
   supplies (testServer threePages) testLib path 0
     [(path, testPage [1, 2] ''/p2''), (''/p2'', testPage [3, 4] ''/p3''),
      (''/p3'', testPage [5, 6] '''')]"
  "path \<noteq> '''' \<Longrightarrow>
   supplies (testServer threePages) testLib path 0
     [(path, testPage [1, 2] ''/p2''), (''/p2'', testPage [3, 4] ''/p3'')]"
  by (simp_all add: testServer_def threePages_def testLib_def testPage_def)



section \<open>The body of a creation request and its decoding\<close>

lemma those_map_Some: "(\<And>x. f x = Some x) \<Longrightarrow> those (map f xs) = Some xs"
  by (induction xs) simp_all

lemma those_decodeReviewer:
  "those (map (decodeReviewer \<circ> (\<lambda>reviewer. JObject [''username'' \<mapsto> JString reviewer]))
      reviewers) =
    Some reviewers"
  by (rule those_map_Some) (simp add: decodeReviewer_def decodeString_def)

lemma createBody_valid:
  "TrimSpace (CreatePullRequestInput.Title input) \<noteq> '''' \<Longrightarrow>
   TrimSpace (CreatePullRequestInput.Source input) \<noteq> '''' \<Longrightarrow>
   TrimSpace (CreatePullRequestInput.Destination input) \<noteq> '''' \<Longrightarrow>
   \<exists>body. createBody input = Inr body"
  by (simp add: createBody_def Let_def)

lemma isValidationError_createBody:
  "isValidationError (createBody input) \<longleftrightarrow>
    TrimSpace (CreatePullRequestInput.Title input) = ''''
    \<or> TrimSpace (CreatePullRequestInput.Source input) = ''''
    \<or> TrimSpace (CreatePullRequestInput.Destination input) = ''''"
  by (simp add: createBody_def Let_def)

text \<open>Decoding the body built from an accepted input gives the input back.\<close>

lemma decodeCreateBody_createBody:
  assumes "createBody input = Inr body"
  shows "decodeCreateBody body = Some input"
proof -
  from assms have body:
    "body ''title'' = Some (JString (CreatePullRequestInput.Title input))"
    "body ''close_source_branch'' = Some (JBool (CloseSource input))"
    "body ''source'' = Some (JObject [''branch'' \<mapsto>
        JObject [''name'' \<mapsto> JString (CreatePullRequestInput.Source input)]])"
    "body ''destination'' = Some (JObject [''branch'' \<mapsto>
        JObject [''name'' \<mapsto> JString (CreatePullRequestInput.Destination input)]])"
    "body ''description'' =
       (if CreatePullRequestInput.Description input \<noteq> ''''
        then Some (JString (CreatePullRequestInput.Description input)) else None)"
    "body ''reviewers'' =
       (if Reviewers input \<noteq> []
        then Some (JArray (map (\<lambda>reviewer. JObject [''username'' \<mapsto> JString reviewer])
                             (Reviewers input)))
        else None)"
    by (auto simp: createBody_def Let_def split: if_splits)
  have title: "decodeString (body ''title'') = Some (CreatePullRequestInput.Title input)"
    by (simp add: body decodeString_def)
  have description:
    "decodeString (body ''description'') = Some (CreatePullRequestInput.Description input)"
    by (simp add: body decodeString_def)
  have source: "decodeBranch (body ''source'') = Some (CreatePullRequestInput.Source input)"
    by (simp add: body decodeBranch_def decodeString_def)
  have destination:
    "decodeBranch (body ''destination'') = Some (CreatePullRequestInput.Destination input)"
    by (simp add: body decodeBranch_def decodeString_def)
  have closeSource: "decodeBool (body ''close_source_branch'') = Some (CloseSource input)"
    by (simp add: body decodeBool_def)
  have reviewers: "decodeReviewers (body ''reviewers'') = Some (Reviewers input)"
    by (simp add: body decodeReviewers_def those_decodeReviewer)
  show ?thesis
    unfolding decodeCreateBody_def title description source destination closeSource reviewers
    by simp
qed

section \<open>The claims\<close>

text \<open>
  C1. UpdatePullRequest builds a payload with exactly the fields of the input that are
  present, each on its own, and returns the error "at least one field (title or
  description) must be provided" exactly when Title and Description are both absent
  (for a workspace and slug that pass the first check); a field present with the empty
  string counts as provided, passes, and the empty string is sent.
\<close>

theorem update_payload_fields:
  "(result (UpdatePullRequest t workspace repoSlug id' input w) =
      Inl (Errorf ''at least one field (title or description) must be provided'')
    \<longrightarrow> UpdatePullRequestInput.Title input = None
        \<and> UpdatePullRequestInput.Description input = None)
   \<and> (UpdatePullRequestInput.Title input = None
        \<and> UpdatePullRequestInput.Description input = None
      \<longrightarrow> isValidationError (result (UpdatePullRequest t workspace repoSlug id' input w))
        \<and> executed (UpdatePullRequest t workspace repoSlug id' input w) = [])
   \<and> (workspace \<noteq> '''' \<and> repoSlug \<noteq> '''' \<longrightarrow>
        (UpdatePullRequestInput.Title input = None
          \<and> UpdatePullRequestInput.Description input = None
         \<longrightarrow> UpdatePullRequest t workspace repoSlug id' input w =
             (Inl (Errorf ''at least one field (title or description) must be provided''), [], w))
      \<and> (UpdatePullRequestInput.Title input \<noteq> None
          \<or> UpdatePullRequestInput.Description input \<noteq> None
         \<longrightarrow> \<not> isValidationError (result (UpdatePullRequest t workspace repoSlug id' input w))
           \<and> updateBody input = Inr (presentFields input)
           \<and> set (executed (UpdatePullRequest t workspace repoSlug id' input w))
               \<subseteq> {(''PUT'', pullRequestPath workspace repoSlug id',
                     Some (JObject (presentFields input)))}
           \<and> (\<forall>req. NewRequest t ''PUT'' (pullRequestPath workspace repoSlug id')
                        (Some (JObject (presentFields input))) = Inr req
                 \<longrightarrow> executed (UpdatePullRequest t workspace repoSlug id' input w) =
                     [(''PUT'', pullRequestPath workspace repoSlug id',
                       Some (JObject (presentFields input)))])))"
  by (auto simp: UpdatePullRequest_def updateBody_cases Let_def
      split: sum.splits prod.splits)

theorem update_payload_fields_witness:
  "UpdatePullRequest (testServer []) ''ws'' ''repo'' 7
      \<lparr>UpdatePullRequestInput.Title = None, UpdatePullRequestInput.Description = None\<rparr> 0 =
      (Inl (Errorf ''at least one field (title or description) must be provided''), [], 0)
   \<and> \<not> isValidationError (result (UpdatePullRequest (testServer []) ''ws'' ''repo'' 7
      \<lparr>UpdatePullRequestInput.Title = Some '''', UpdatePullRequestInput.Description = None\<rparr> 0))
   \<and> executed (UpdatePullRequest (testServer []) ''ws'' ''repo'' 7
      \<lparr>UpdatePullRequestInput.Title = Some '''', UpdatePullRequestInput.Description = None\<rparr> 0) =
      [(''PUT'', ''/repositories/ws/repo/pullrequests/7'',
        Some (JObject [''title'' \<mapsto> JString '''']))]"
proof -
  let ?absent =
    "\<lparr>UpdatePullRequestInput.Title = None, UpdatePullRequestInput.Description = None\<rparr>"
  let ?clear =
    "\<lparr>UpdatePullRequestInput.Title = Some '''', UpdatePullRequestInput.Description = None\<rparr>"
  have ws: "''ws'' \<noteq> '''' \<and> ''repo'' \<noteq> ''''" by simp
  have a: "UpdatePullRequest (testServer []) ''ws'' ''repo'' 7 ?absent 0 =
      (Inl (Errorf ''at least one field (title or description) must be provided''), [], 0)"
    using update_payload_fields [of "testServer []" "''ws''" "''repo''" 7 ?absent 0] ws
    by simp
  have b: "presentFields ?clear = [''title'' \<mapsto> JString '''']"
    by (auto simp: presentFields_def fun_eq_iff)
  have c: "\<not> isValidationError
        (result (UpdatePullRequest (testServer []) ''ws'' ''repo'' 7 ?clear 0))
      \<and> executed (UpdatePullRequest (testServer []) ''ws'' ''repo'' 7 ?clear 0) =
        [(''PUT'', pullRequestPath ''ws'' ''repo'' 7, Some (JObject (presentFields ?clear)))]"
    using update_payload_fields [of "testServer []" "''ws''" "''repo''" 7 ?clear 0] ws
    by (simp add: testServer_def)
  with a b show ?thesis
    by (simp add: path_ws_repo_7)
qed

text \<open>
  C2. For a call of ListPullRequests with Limit = n > 0 (workspace and slug non-empty)
  and pages that the server supplies without error, up to the end of its chain or to
  a point where they hold at least n items: the call returns the first n of the items
  in the order of the pages, so min(n, number of items supplied) of them; the requests
  it executes are those for the pages up to and including the first one at which the
  accumulated count reaches n, and no further one; before that page the count was
  below n.
\<close>

theorem list_limit_truncates:
  assumes "workspace \<noteq> ''''" and "repoSlug \<noteq> ''''" and "0 < Limit opts"
    and "supplies t lib (listPath lib workspace repoSlug opts) w rps"
    and "Next (snd (last rps)) = '''' \<or> Limit opts \<le> int (length (items rps))"
  shows
    "map_option result (ListPullRequests t lib workspace repoSlug opts w) =
       Some (Inr (take (nat (Limit opts)) (items rps)))
     \<and> length (take (nat (Limit opts)) (items rps))
         = min (nat (Limit opts)) (length (items rps))
     \<and> map_option executed (ListPullRequests t lib workspace repoSlug opts w) =
         Some (getCalls (take (pagesNeeded (Limit opts) 0 rps) rps))
     \<and> pagesNeeded (Limit opts) 0 rps \<le> length rps
     \<and> int (length (items (take (pagesNeeded (Limit opts) 0 rps - 1) rps))) < Limit opts"
proof -
  from assms(3,5) have fin: "Next (snd (last rps)) = ''''
      \<or> (0 < Limit opts \<and> Limit opts \<le> int (length (items rps)))"
    by blast
  from ListPullRequests_supplies [OF assms(1,2,4) fin] assms(3)
  obtain w' where
    "ListPullRequests t lib workspace repoSlug opts w =
      Some (Inr (take (nat (Limit opts)) (items rps)),
            getCalls (take (pagesNeeded (Limit opts) 0 rps) rps), w')"
    by auto
  moreover from assms(3) have
    "int (length (items (take (pagesNeeded (Limit opts) 0 rps - 1) rps))) < Limit opts"
    using pagesNeeded_minimal [of 0 "Limit opts" rps] by simp
  ultimately show ?thesis
    by (simp add: pagesNeeded_le)
qed

theorem list_limit_truncates_witness:
  "map_option result
     (ListPullRequests (testServer threePages) testLib ''ws'' ''repo''
        \<lparr>PullRequestListOptions.State = '''', Limit = 3, Mine = ''''\<rparr> 0) =
     Some (Inr [testPullRequest 1, testPullRequest 2, testPullRequest 3])
   \<and> map_option executed
     (ListPullRequests (testServer threePages) testLib ''ws'' ''repo''
        \<lparr>PullRequestListOptions.State = '''', Limit = 3, Mine = ''''\<rparr> 0) =
     Some [(''GET'', ''/repositories/ws/repo/pullrequests?pagelen=3'', None),
           (''GET'', ''/p2'', None)]
   \<and> map_option result
     (ListPullRequests (testServer threePages) testLib ''ws'' ''repo''
        \<lparr>PullRequestListOptions.State = '''', Limit = 10, Mine = ''''\<rparr> 0) =
     Some (Inr [testPullRequest 1, testPullRequest 2, testPullRequest 3,
                testPullRequest 4, testPullRequest 5, testPullRequest 6])
   \<and> map_option executed
     (ListPullRequests (testServer threePages) testLib ''ws'' ''repo''
        \<lparr>PullRequestListOptions.State = '''', Limit = 10, Mine = ''''\<rparr> 0) =
     Some [(''GET'', ''/repositories/ws/repo/pullrequests?pagelen=10'', None),
           (''GET'', ''/p2'', None), (''GET'', ''/p3'', None)]"
proof -
  let ?opts = "\<lparr>PullRequestListOptions.State = '''', Limit = 3, Mine = ''''\<rparr>"
  let ?path = "listPath testLib ''ws'' ''repo'' ?opts"
  let ?rps = "[(?path, testPage [1, 2] ''/p2''), (''/p2'', testPage [3, 4] ''/p3''),
      (''/p3'', testPage [5, 6] '''')]"
  have ws: "''ws'' \<noteq> ''''" "''repo'' \<noteq> ''''" by simp_all
  have limit: "0 < Limit ?opts" by simp
  have sup: "supplies (testServer threePages) testLib ?path 0 ?rps"
    by (rule supplies_threePages) (rule listPath_nonempty)
  have fin: "Next (snd (last ?rps)) = '''' \<or> Limit ?opts \<le> int (length (items ?rps))"
    by (simp add: testPage_def)
  let ?opts' = "\<lparr>PullRequestListOptions.State = '''', Limit = 10, Mine = ''''\<rparr>"
  let ?path' = "listPath testLib ''ws'' ''repo'' ?opts'"
  let ?rps' = "[(?path', testPage [1, 2] ''/p2''), (''/p2'', testPage [3, 4] ''/p3''),
      (''/p3'', testPage [5, 6] '''')]"
  have limit': "0 < Limit ?opts'" by simp
  have sup': "supplies (testServer threePages) testLib ?path' 0 ?rps'"
    by (rule supplies_threePages) (rule listPath_nonempty)
  have fin': "Next (snd (last ?rps')) = '''' \<or> Limit ?opts' \<le> int (length (items ?rps'))"
    by (simp add: testPage_def)
  from list_limit_truncates [OF ws limit sup fin] list_limit_truncates [OF ws limit' sup' fin']
  show ?thesis
    by (simp add: testPage_def listPath_3 listPath_10)
qed

text \<open>
  C3, as amended. CommentPullRequest fails with a validation error and no call executed
  whenever the text is blank after trimming, or FilePath is non-empty and Line <= 0, or
  FilePath is non-empty and 0 < LineFrom and LineFrom > Line. For a non-empty workspace
  and slug the message is that of the first check that fails, in the order of the code:
  blank text gives "comment text is required"; then FilePath non-empty and Line <= 0
  gives "line number must be positive when file path is specified"; then, with
  Line > 0, LineFrom > Line gives "line range start (<LineFrom>) must be less than or
  equal to end (<Line>)" with both values in decimal.
\<close>

theorem comment_validation_messages:
  "(TrimSpace (Text opts) = ''''
      \<or> (FilePath opts \<noteq> '''' \<and> Line opts \<le> 0)
      \<or> (FilePath opts \<noteq> '''' \<and> 0 < LineFrom opts \<and> Line opts < LineFrom opts)
    \<longrightarrow> isValidationError (result (CommentPullRequest t workspace repoSlug id' opts w))
      \<and> executed (CommentPullRequest t workspace repoSlug id' opts w) = []
      \<and> snd (snd (CommentPullRequest t workspace repoSlug id' opts w)) = w)
   \<and> (workspace \<noteq> '''' \<and> repoSlug \<noteq> '''' \<longrightarrow>
        (TrimSpace (Text opts) = ''''
         \<longrightarrow> result (CommentPullRequest t workspace repoSlug id' opts w) =
             Inl (Errorf ''comment text is required''))
      \<and> (TrimSpace (Text opts) \<noteq> '''' \<and> FilePath opts \<noteq> '''' \<and> Line opts \<le> 0
         \<longrightarrow> result (CommentPullRequest t workspace repoSlug id' opts w) =
             Inl (Errorf ''line number must be positive when file path is specified''))
      \<and> (TrimSpace (Text opts) \<noteq> '''' \<and> FilePath opts \<noteq> '''' \<and> 0 < Line opts
          \<and> 0 < LineFrom opts \<and> Line opts < LineFrom opts
         \<longrightarrow> result (CommentPullRequest t workspace repoSlug id' opts w) =
             Inl (Errorf (''line range start ('' @ showInt (LineFrom opts)
               @ '') must be less than or equal to end ('' @ showInt (Line opts) @ '')''))))"
  by (auto simp: CommentPullRequest_def commentPayload_def rangeError_def Let_def)

theorem comment_validation_messages_witness:
  "CommentPullRequest (testServer []) ''ws'' ''repo'' 1
      \<lparr>Text = [CHR 0x20, CHR 0x09, CHR 0x20], FilePath = '''', Line = 0, LineFrom = 0\<rparr> 0 =
      (Inl (Errorf ''comment text is required''), [], 0)
   \<and> CommentPullRequest (testServer []) ''ws'' ''repo'' 1
      \<lparr>Text = ''test'', FilePath = ''src/main.go'', Line = 0, LineFrom = 0\<rparr> 0 =
      (Inl (Errorf ''line number must be positive when file path is specified''), [], 0)
   \<and> CommentPullRequest (testServer []) ''ws'' ''repo'' 1
      \<lparr>Text = ''test'', FilePath = ''src/main.go'', Line = 10, LineFrom = 20\<rparr> 0 =
      (Inl (Errorf ''line range start (20) must be less than or equal to end (10)''), [], 0)"
proof -
  let ?blank = "\<lparr>Text = [CHR 0x20, CHR 0x09, CHR 0x20], FilePath = '''', Line = 0, LineFrom = 0\<rparr>"
  let ?noline = "\<lparr>Text = ''test'', FilePath = ''src/main.go'', Line = 0, LineFrom = 0\<rparr>"
  let ?range = "\<lparr>Text = ''test'', FilePath = ''src/main.go'', Line = 10, LineFrom = 20\<rparr>"
  have a: "CommentPullRequest (testServer []) ''ws'' ''repo'' 1 ?blank 0 =
      (Inl (Errorf ''comment text is required''), [], 0)"
    using comment_validation_messages [of ?blank "testServer []" "''ws''" "''repo''" 1 0]
    by (simp add: TrimSpace_blank result_def executed_def prod_eq_iff)
  have b: "CommentPullRequest (testServer []) ''ws'' ''repo'' 1 ?noline 0 =
      (Inl (Errorf ''line number must be positive when file path is specified''), [], 0)"
    using comment_validation_messages [of ?noline "testServer []" "''ws''" "''repo''" 1 0]
    by (simp add: TrimSpace_test result_def executed_def prod_eq_iff)
  have "showInt 20 = ''20''" "showInt 10 = ''10''"
    by code_simp+
  then have c: "CommentPullRequest (testServer []) ''ws'' ''repo'' 1 ?range 0 =
      (Inl (Errorf ''line range start (20) must be less than or equal to end (10)''), [], 0)"
    using comment_validation_messages [of ?range "testServer []" "''ws''" "''repo''" 1 0]
    by (simp add: TrimSpace_test result_def executed_def prod_eq_iff)
  from a b c show ?thesis by simp
qed

text \<open>
  The claim as it was stated gives the range message to every input with FilePath
  non-empty, LineFrom > 0 and LineFrom > Line, and the line message to every input with
  FilePath non-empty and Line <= 0. With Line = 0 and LineFrom = 5 both cases apply; the
  check of the line comes first and its message is returned, not the range message.
  With an empty text, a file path and Line = 0 the check of the text comes first.
\<close>

theorem comment_range_message_counterexample:
  "FilePath \<lparr>Text = ''test'', FilePath = ''src/main.go'', Line = 0, LineFrom = 5\<rparr> \<noteq> ''''
   \<and> 0 < LineFrom \<lparr>Text = ''test'', FilePath = ''src/main.go'', Line = 0, LineFrom = 5\<rparr>
   \<and> Line \<lparr>Text = ''test'', FilePath = ''src/main.go'', Line = 0, LineFrom = 5\<rparr>
       < LineFrom \<lparr>Text = ''test'', FilePath = ''src/main.go'', Line = 0, LineFrom = 5\<rparr>
   \<and> CommentPullRequest (testServer []) ''ws'' ''repo'' 1
      \<lparr>Text = ''test'', FilePath = ''src/main.go'', Line = 0, LineFrom = 5\<rparr> 0 =
      (Inl (Errorf ''line number must be positive when file path is specified''), [], 0)
   \<and> result (CommentPullRequest (testServer []) ''ws'' ''repo'' 1
      \<lparr>Text = ''test'', FilePath = ''src/main.go'', Line = 0, LineFrom = 5\<rparr> 0) \<noteq>
      Inl (Errorf ''line range start (5) must be less than or equal to end (0)'')
   \<and> rangeError 5 0 = ''line range start (5) must be less than or equal to end (0)''
   \<and> CommentPullRequest (testServer []) ''ws'' ''repo'' 1
      \<lparr>Text = '''', FilePath = ''src/main.go'', Line = 0, LineFrom = 0\<rparr> 0 =
      (Inl (Errorf ''comment text is required''), [], 0)
   \<and> result (CommentPullRequest (testServer []) ''ws'' ''repo'' 1
      \<lparr>Text = '''', FilePath = ''src/main.go'', Line = 0, LineFrom = 0\<rparr> 0) \<noteq>
      Inl (Errorf ''line number must be positive when file path is specified'')"
  by (simp add: CommentPullRequest_def commentPayload_def TrimSpace_test TrimSpace_empty
      rangeError_5_0)

text \<open>
  C4. For every valid input (text not blank; with a file path, Line positive and
  LineFrom, when positive, at most Line) the payload built by CommentPullRequest has
  content.raw equal to the text; it has an inline object exactly when FilePath is
  non-empty, with inline.path the file path and inline.to the line; inline has a from
  key, equal to LineFrom, exactly when LineFrom > 0; the payload has no other key. For
  a non-empty workspace and slug this payload is the body of the one POST request.
\<close>

theorem comment_payload_contents:
  assumes "TrimSpace (Text opts) \<noteq> ''''"
    and "FilePath opts \<noteq> '''' \<longrightarrow>
           0 < Line opts \<and> (0 < LineFrom opts \<longrightarrow> LineFrom opts \<le> Line opts)"
  shows
    "case commentPayload opts of
       Inl e \<Rightarrow> False
     | Inr payload \<Rightarrow>
         field ''raw'' (payload ''content'') = Some (JString (Text opts))
       \<and> (payload ''inline'' \<noteq> None \<longleftrightarrow> FilePath opts \<noteq> '''')
       \<and> (FilePath opts \<noteq> '''' \<longrightarrow>
            field ''path'' (payload ''inline'') = Some (JString (FilePath opts))
          \<and> field ''to'' (payload ''inline'') = Some (JInt (Line opts)))
       \<and> field ''from'' (payload ''inline'') =
            (if FilePath opts \<noteq> '''' \<and> 0 < LineFrom opts
             then Some (JInt (LineFrom opts)) else None)
       \<and> dom payload \<subseteq> {''content'', ''inline''}
       \<and> (workspace \<noteq> '''' \<and> repoSlug \<noteq> '''' \<longrightarrow>
            set (executed (CommentPullRequest t workspace repoSlug id' opts w))
              \<subseteq> {(''POST'', pullRequestPath workspace repoSlug id' @ ''/comments'',
                   Some (JObject payload))}
          \<and> (\<forall>req. NewRequest t ''POST'' (pullRequestPath workspace repoSlug id' @ ''/comments'')
                       (Some (JObject payload)) = Inr req
                \<longrightarrow> executed (CommentPullRequest t workspace repoSlug id' opts w) =
                    [(''POST'', pullRequestPath workspace repoSlug id' @ ''/comments'',
                      Some (JObject payload))]))"
proof -
  from assms have "\<exists>payload. commentPayload opts = Inr payload"
    by (auto simp: commentPayload_def Let_def not_le)
  then obtain payload where p: "commentPayload opts = Inr payload" ..
  from p assms have contents:
    "field ''raw'' (payload ''content'') = Some (JString (Text opts))"
    "payload ''inline'' \<noteq> None \<longleftrightarrow> FilePath opts \<noteq> ''''"
    "FilePath opts \<noteq> '''' \<longrightarrow>
       field ''path'' (payload ''inline'') = Some (JString (FilePath opts))
     \<and> field ''to'' (payload ''inline'') = Some (JInt (Line opts))"
    "field ''from'' (payload ''inline'') =
       (if FilePath opts \<noteq> '''' \<and> 0 < LineFrom opts then Some (JInt (LineFrom opts)) else None)"
    "dom payload \<subseteq> {''content'', ''inline''}"
    by (auto simp: commentPayload_def Let_def split: if_splits)
  from p have sent:
    "workspace \<noteq> '''' \<and> repoSlug \<noteq> '''' \<longrightarrow>
       set (executed (CommentPullRequest t workspace repoSlug id' opts w))
         \<subseteq> {(''POST'', pullRequestPath workspace repoSlug id' @ ''/comments'',
              Some (JObject payload))}
     \<and> (\<forall>req. NewRequest t ''POST'' (pullRequestPath workspace repoSlug id' @ ''/comments'')
                  (Some (JObject payload)) = Inr req
           \<longrightarrow> executed (CommentPullRequest t workspace repoSlug id' opts w) =
               [(''POST'', pullRequestPath workspace repoSlug id' @ ''/comments'',
                 Some (JObject payload))])"
    by (auto simp: CommentPullRequest_def Let_def split: sum.splits prod.splits)
  from p contents sent show ?thesis by simp
qed

theorem comment_payload_contents_witness:
  "executed (CommentPullRequest (testServer []) ''ws'' ''repo'' 1
      \<lparr>Text = ''Looks good!'', FilePath = '''', Line = 0, LineFrom = 0\<rparr> 0) =
      [(''POST'', ''/repositories/ws/repo/pullrequests/1/comments'',
        Some (JObject [''content'' \<mapsto> JObject [''raw'' \<mapsto> JString ''Looks good!'']]))]
   \<and> executed (CommentPullRequest (testServer []) ''ws'' ''repo'' 1
      \<lparr>Text = ''Fix this'', FilePath = ''src/main.go'', Line = 42, LineFrom = 0\<rparr> 0) =
      [(''POST'', ''/repositories/ws/repo/pullrequests/1/comments'',
        Some (JObject
          [''content'' \<mapsto> JObject [''raw'' \<mapsto> JString ''Fix this''],
           ''inline'' \<mapsto> JObject [''path'' \<mapsto> JString ''src/main.go'', ''to'' \<mapsto> JInt 42]]))]
   \<and> executed (CommentPullRequest (testServer []) ''ws'' ''repo'' 1
      \<lparr>Text = ''Refactor this block'', FilePath = ''src/helper.go'', Line = 20, LineFrom = 10\<rparr> 0) =
      [(''POST'', ''/repositories/ws/repo/pullrequests/1/comments'',
        Some (JObject
          [''content'' \<mapsto> JObject [''raw'' \<mapsto> JString ''Refactor this block''],
           ''inline'' \<mapsto> JObject [''path'' \<mapsto> JString ''src/helper.go'', ''to'' \<mapsto> JInt 20,
                                  ''from'' \<mapsto> JInt 10]]))]"
proof -
  let ?general = "\<lparr>Text = ''Looks good!'', FilePath = '''', Line = 0, LineFrom = 0\<rparr>"
  let ?single = "\<lparr>Text = ''Fix this'', FilePath = ''src/main.go'', Line = 42, LineFrom = 0\<rparr>"
  let ?range =
    "\<lparr>Text = ''Refactor this block'', FilePath = ''src/helper.go'', Line = 20, LineFrom = 10\<rparr>"
  have a: "executed (CommentPullRequest (testServer []) ''ws'' ''repo'' 1 ?general 0) =
      [(''POST'', pullRequestPath ''ws'' ''repo'' 1 @ ''/comments'',
        Some (JObject [''content'' \<mapsto> JObject [''raw'' \<mapsto> JString ''Looks good!'']]))]"
    using comment_payload_contents [of ?general "''ws''" "''repo''" "testServer []" 1 0]
    by (simp add: TrimSpace_samples commentPayload_def testServer_def)
  have b: "executed (CommentPullRequest (testServer []) ''ws'' ''repo'' 1 ?single 0) =
      [(''POST'', pullRequestPath ''ws'' ''repo'' 1 @ ''/comments'',
        Some (JObject
          [''content'' \<mapsto> JObject [''raw'' \<mapsto> JString ''Fix this''],
           ''inline'' \<mapsto> JObject [''path'' \<mapsto> JString ''src/main.go'', ''to'' \<mapsto> JInt 42]]))]"
    using comment_payload_contents [of ?single "''ws''" "''repo''" "testServer []" 1 0]
    by (simp add: TrimSpace_samples commentPayload_def testServer_def)
  have c: "executed (CommentPullRequest (testServer []) ''ws'' ''repo'' 1 ?range 0) =
      [(''POST'', pullRequestPath ''ws'' ''repo'' 1 @ ''/comments'',
        Some (JObject
          [''content'' \<mapsto> JObject [''raw'' \<mapsto> JString ''Refactor this block''],
           ''inline'' \<mapsto> JObject [''path'' \<mapsto> JString ''src/helper.go'', ''to'' \<mapsto> JInt 20,
                                  ''from'' \<mapsto> JInt 10]]))]"
    using comment_payload_contents [of ?range "''ws''" "''repo''" "testServer []" 1 0]
    by (simp add: TrimSpace_samples commentPayload_def testServer_def)
  from a b c show ?thesis
    by (simp only: path_ws_repo_1_comments)
qed

text \<open>
  C5. For every input in which workspace or repoSlug is the empty string, each of the
  five operations ListPullRequests, GetPullRequest, CreatePullRequest,
  UpdatePullRequest and CommentPullRequest returns the error with the message
  "workspace and repository slug are required", has executed no call and leaves the
  world as it was.
\<close>

theorem workspace_and_slug_required:
  assumes "workspace = '''' \<or> repoSlug = ''''"
  shows
    "ListPullRequests t lib workspace repoSlug listOpts w =
       Some (Inl (Errorf ''workspace and repository slug are required''), [], w)
     \<and> GetPullRequest t workspace repoSlug id' w =
       (Inl (Errorf ''workspace and repository slug are required''), [], w)
     \<and> CreatePullRequest t workspace repoSlug createInput w =
       (Inl (Errorf ''workspace and repository slug are required''), [], w)
     \<and> UpdatePullRequest t workspace repoSlug id' updateInput w =
       (Inl (Errorf ''workspace and repository slug are required''), [], w)
     \<and> CommentPullRequest t workspace repoSlug id' commentOpts w =
       (Inl (Errorf ''workspace and repository slug are required''), [], w)"
  using assms
  by (auto simp: ListPullRequests_def GetPullRequest_def CreatePullRequest_def
      UpdatePullRequest_def CommentPullRequest_def)

theorem workspace_and_slug_required_witness:
  "ListPullRequests (testServer []) testLib '''' ''repo''
       \<lparr>PullRequestListOptions.State = '''', Limit = 5, Mine = ''''\<rparr> 0 =
       Some (Inl (Errorf ''workspace and repository slug are required''), [], 0)
   \<and> GetPullRequest (testServer []) '''' ''repo'' 1 0 =
       (Inl (Errorf ''workspace and repository slug are required''), [], 0)
   \<and> CreatePullRequest (testServer []) '''' ''repo''
       \<lparr>CreatePullRequestInput.Title = ''Add feature'',
        CreatePullRequestInput.Description = '''',
        CreatePullRequestInput.Source = ''feature'',
        CreatePullRequestInput.Destination = ''main'',
        CloseSource = False, Reviewers = []\<rparr> 0 =
       (Inl (Errorf ''workspace and repository slug are required''), [], 0)
   \<and> UpdatePullRequest (testServer []) '''' ''repo'' 1
       \<lparr>UpdatePullRequestInput.Title = Some ''New title'',
        UpdatePullRequestInput.Description = None\<rparr> 0 =
       (Inl (Errorf ''workspace and repository slug are required''), [], 0)
   \<and> CommentPullRequest (testServer []) '''' ''repo'' 1
       \<lparr>Text = ''test'', FilePath = '''', Line = 0, LineFrom = 0\<rparr> 0 =
       (Inl (Errorf ''workspace and repository slug are required''), [], 0)"
proof -
  have h: "('''' :: string) = '''' \<or> ''repo'' = ''''" by simp
  show ?thesis
    by (rule workspace_and_slug_required [OF h])
qed



text \<open>
  C7. The page walk of ListPullRequests returns after finitely many page requests
  whenever the server supplies, without error, pages up to an empty next reference (a
  finite chain) or pages that hold at least as many items as a positive limit: the
  call returns, and it has executed at most as many requests as there are such pages.
\<close>

theorem list_walk_terminates:
  assumes "supplies t lib (listPath lib workspace repoSlug opts) w rps"
    and "Next (snd (last rps)) = ''''
         \<or> (0 < Limit opts \<and> Limit opts \<le> int (length (items rps)))"
  shows "\<exists>r. ListPullRequests t lib workspace repoSlug opts w = Some r
           \<and> length (executed r) \<le> length rps"
proof (cases "workspace = '''' \<or> repoSlug = ''''")
  case True
  then show ?thesis
    by (simp add: ListPullRequests_def)
next
  case False
  with ListPullRequests_supplies [OF _ _ assms] obtain w' where
    "ListPullRequests t lib workspace repoSlug opts w =
      Some (Inr (if 0 < Limit opts then take (nat (Limit opts)) (items rps) else items rps),
            getCalls (take (pagesNeeded (Limit opts) 0 rps) rps), w')"
    by blast
  then show ?thesis
    by (simp add: pagesNeeded_le)
qed

theorem list_walk_terminates_witness:
  "(\<exists>r. ListPullRequests (testServer threePages) testLib ''ws'' ''repo''
          \<lparr>PullRequestListOptions.State = '''', Limit = 0, Mine = ''''\<rparr> 0 = Some r
        \<and> length (executed r) \<le> 3)
   \<and> (\<exists>r. ListPullRequests (testServer threePages) testLib ''ws'' ''repo''
          \<lparr>PullRequestListOptions.State = '''', Limit = 3, Mine = ''''\<rparr> 0 = Some r
        \<and> length (executed r) \<le> 2)"
proof -
  let ?all = "\<lparr>PullRequestListOptions.State = '''', Limit = 0, Mine = ''''\<rparr>"
  let ?three = "\<lparr>PullRequestListOptions.State = '''', Limit = 3, Mine = ''''\<rparr>"
  let ?chain = "[(listPath testLib ''ws'' ''repo'' ?all, testPage [1, 2] ''/p2''),
      (''/p2'', testPage [3, 4] ''/p3''), (''/p3'', testPage [5, 6] '''')]"
  let ?stretch = "[(listPath testLib ''ws'' ''repo'' ?three, testPage [1, 2] ''/p2''),
      (''/p2'', testPage [3, 4] ''/p3'')]"
  have a: "supplies (testServer threePages) testLib (listPath testLib ''ws'' ''repo'' ?all) 0 ?chain"
    by (rule supplies_threePages) (rule listPath_nonempty)
  have a': "Next (snd (last ?chain)) = ''''
      \<or> (0 < Limit ?all \<and> Limit ?all \<le> int (length (items ?chain)))"
    by (simp add: testPage_def)
  have b: "supplies (testServer threePages) testLib (listPath testLib ''ws'' ''repo'' ?three) 0
      ?stretch"
    by (rule supplies_threePages) (rule listPath_nonempty)
  have b': "Next (snd (last ?stretch)) = ''''
      \<or> (0 < Limit ?three \<and> Limit ?three \<le> int (length (items ?stretch)))"
    by (simp add: testPage_def)
  from list_walk_terminates [OF a a'] list_walk_terminates [OF b b'] show ?thesis
    by (simp add: eval_nat_numeral)
qed

text \<open>
  C8. For every CreatePullRequestInput that passes the validation of CreatePullRequest
  (title, source and destination not blank after trimming) a body is built; decoded
  back into a CreatePullRequestInput it passes the same validation again (it is the
  input itself, and the body built from it is the same body).
\<close>

theorem create_body_round_trip:
  assumes "TrimSpace (CreatePullRequestInput.Title input) \<noteq> ''''"
    and "TrimSpace (CreatePullRequestInput.Source input) \<noteq> ''''"
    and "TrimSpace (CreatePullRequestInput.Destination input) \<noteq> ''''"
  shows
    "case createBody input of
       Inl e \<Rightarrow> False
     | Inr body \<Rightarrow>
         (case decodeCreateBody body of
            None \<Rightarrow> False
          | Some decoded \<Rightarrow>
              \<not> isValidationError (createBody decoded)
              \<and> TrimSpace (CreatePullRequestInput.Title decoded) \<noteq> ''''
              \<and> TrimSpace (CreatePullRequestInput.Source decoded) \<noteq> ''''
              \<and> TrimSpace (CreatePullRequestInput.Destination decoded) \<noteq> ''''
              \<and> decoded = input
              \<and> createBody decoded = Inr body
              \<and> (workspace \<noteq> '''' \<and> repoSlug \<noteq> '''' \<longrightarrow>
                   \<not> isValidationError (result (CreatePullRequest t workspace repoSlug input w))
                 \<and> \<not> isValidationError (result (CreatePullRequest t workspace repoSlug decoded w))
                 \<and> set (executed (CreatePullRequest t workspace repoSlug input w))
                     \<subseteq> {(''POST'',
                          ''/repositories/'' @ PathEscape workspace @ ''/''
                          @ PathEscape repoSlug @ ''/pullrequests'',
                          Some (JObject body))}))"
proof -
  from createBody_valid [OF assms] obtain body where body: "createBody input = Inr body" ..
  have decoded: "decodeCreateBody body = Some input"
    by (rule decodeCreateBody_createBody [OF body])
  have valid: "\<not> isValidationError (createBody input)"
    using assms by (simp add: isValidationError_createBody)
  have sent: "workspace \<noteq> '''' \<and> repoSlug \<noteq> '''' \<longrightarrow>
      \<not> isValidationError (result (CreatePullRequest t workspace repoSlug input w))
    \<and> set (executed (CreatePullRequest t workspace repoSlug input w))
        \<subseteq> {(''POST'',
             ''/repositories/'' @ PathEscape workspace @ ''/''
             @ PathEscape repoSlug @ ''/pullrequests'',
             Some (JObject body))}"
    using body
    by (auto simp: CreatePullRequest_def Let_def split: sum.splits prod.splits)
  from body decoded valid sent assms show ?thesis
    by simp
qed

theorem create_body_round_trip_witness:
  "createBody
      \<lparr>CreatePullRequestInput.Title = ''Add feature'',
       CreatePullRequestInput.Description = '''',
       CreatePullRequestInput.Source = ''feature'',
       CreatePullRequestInput.Destination = ''main'',
       CloseSource = True, Reviewers = [''ada'']\<rparr> =
    Inr [''title'' \<mapsto> JString ''Add feature'',
         ''close_source_branch'' \<mapsto> JBool True,
         ''source'' \<mapsto> JObject [''branch'' \<mapsto> JObject [''name'' \<mapsto> JString ''feature'']],
         ''destination'' \<mapsto> JObject [''branch'' \<mapsto> JObject [''name'' \<mapsto> JString ''main'']],
         ''reviewers'' \<mapsto> JArray [JObject [''username'' \<mapsto> JString ''ada'']]]
   \<and> decodeCreateBody
       [''title'' \<mapsto> JString ''Add feature'',
        ''close_source_branch'' \<mapsto> JBool True,
        ''source'' \<mapsto> JObject [''branch'' \<mapsto> JObject [''name'' \<mapsto> JString ''feature'']],
        ''destination'' \<mapsto> JObject [''branch'' \<mapsto> JObject [''name'' \<mapsto> JString ''main'']],
        ''reviewers'' \<mapsto> JArray [JObject [''username'' \<mapsto> JString ''ada'']]] =
      Some \<lparr>CreatePullRequestInput.Title = ''Add feature'',
            CreatePullRequestInput.Description = '''',
            CreatePullRequestInput.Source = ''feature'',
            CreatePullRequestInput.Destination = ''main'',
            CloseSource = True, Reviewers = [''ada'']\<rparr>"
proof -
  let ?input = "\<lparr>CreatePullRequestInput.Title = ''Add feature'',
       CreatePullRequestInput.Description = '''',
       CreatePullRequestInput.Source = ''feature'',
       CreatePullRequestInput.Destination = ''main'',
       CloseSource = True, Reviewers = [''ada'']\<rparr>"
  have trim: "TrimSpace ''Add feature'' = ''Add feature''" "TrimSpace ''feature'' = ''feature''"
    "TrimSpace ''main'' = ''main''"
    by code_simp+
  have body: "createBody ?input =
    Inr [''title'' \<mapsto> JString ''Add feature'',
         ''close_source_branch'' \<mapsto> JBool True,
         ''source'' \<mapsto> JObject [''branch'' \<mapsto> JObject [''name'' \<mapsto> JString ''feature'']],
         ''destination'' \<mapsto> JObject [''branch'' \<mapsto> JObject [''name'' \<mapsto> JString ''main'']],
         ''reviewers'' \<mapsto> JArray [JObject [''username'' \<mapsto> JString ''ada'']]]"
    by (simp add: createBody_def trim)
  have h: "TrimSpace (CreatePullRequestInput.Title ?input) \<noteq> ''''"
    "TrimSpace (CreatePullRequestInput.Source ?input) \<noteq> ''''"
    "TrimSpace (CreatePullRequestInput.Destination ?input) \<noteq> ''''"
    by (simp_all add: trim)
  from create_body_round_trip [OF h, of "''ws''" "''repo''" "testServer []" 0]
  have "decodeCreateBody
       [''title'' \<mapsto> JString ''Add feature'',
        ''close_source_branch'' \<mapsto> JBool True,
        ''source'' \<mapsto> JObject [''branch'' \<mapsto> JObject [''name'' \<mapsto> JString ''feature'']],
        ''destination'' \<mapsto> JObject [''branch'' \<mapsto> JObject [''name'' \<mapsto> JString ''main'']],
        ''reviewers'' \<mapsto> JArray [JObject [''username'' \<mapsto> JString ''ada'']]] = Some ?input"
    unfolding body
    by (auto split: option.splits)
  with body show ?thesis
    by (intro conjI)
qed

text \<open>
  C9. The pull request id is never validated. For GetPullRequest, UpdatePullRequest and
  CommentPullRequest and every integer id: whether the call ends in a validation error
  does not depend on the id; with a non-empty workspace and slug (and, for an update, a
  field present; for a comment, a valid text and location) there is no validation
  error; a validation error is one of the workspace/slug, empty-payload, text, line and
  range errors; and every call executed has the path
  /repositories/<workspace>/<repoSlug>/pullrequests/<id> (followed by /comments for a
  comment), the id in decimal as \<^verbatim>\<open>%d\<close> prints it.
\<close>

theorem id_not_validated:
  "(isValidationError (result (GetPullRequest t workspace repoSlug id1 w))
      \<longleftrightarrow> isValidationError (result (GetPullRequest t workspace repoSlug id2 w)))
   \<and> (isValidationError (result (UpdatePullRequest t workspace repoSlug id1 input w))
      \<longleftrightarrow> isValidationError (result (UpdatePullRequest t workspace repoSlug id2 input w)))
   \<and> (isValidationError (result (CommentPullRequest t workspace repoSlug id1 opts w))
      \<longleftrightarrow> isValidationError (result (CommentPullRequest t workspace repoSlug id2 opts w)))
   \<and> (workspace \<noteq> '''' \<and> repoSlug \<noteq> '''' \<longrightarrow>
        \<not> isValidationError (result (GetPullRequest t workspace repoSlug id1 w))
      \<and> (UpdatePullRequestInput.Title input \<noteq> None
           \<or> UpdatePullRequestInput.Description input \<noteq> None
          \<longrightarrow> \<not> isValidationError (result (UpdatePullRequest t workspace repoSlug id1 input w)))
      \<and> (TrimSpace (Text opts) \<noteq> ''''
           \<and> (FilePath opts \<noteq> '''' \<longrightarrow>
                0 < Line opts \<and> (0 < LineFrom opts \<longrightarrow> LineFrom opts \<le> Line opts))
          \<longrightarrow> \<not> isValidationError (result (CommentPullRequest t workspace repoSlug id1 opts w))))
   \<and> (\<forall>m. result (GetPullRequest t workspace repoSlug id1 w) = Inl (Errorf m)
          \<longrightarrow> m = ''workspace and repository slug are required'')
   \<and> (\<forall>m. result (UpdatePullRequest t workspace repoSlug id1 input w) = Inl (Errorf m)
          \<longrightarrow> m = ''workspace and repository slug are required''
            \<or> m = ''at least one field (title or description) must be provided'')
   \<and> (\<forall>m. result (CommentPullRequest t workspace repoSlug id1 opts w) = Inl (Errorf m)
          \<longrightarrow> m = ''workspace and repository slug are required''
            \<or> m = ''comment text is required''
            \<or> m = ''line number must be positive when file path is specified''
            \<or> m = rangeError (LineFrom opts) (Line opts))
   \<and> (\<forall>call \<in> set (executed (GetPullRequest t workspace repoSlug id1 w)).
          fst (snd call) =
            ''/repositories/'' @ PathEscape workspace @ ''/'' @ PathEscape repoSlug
            @ ''/pullrequests/'' @ showInt id1)
   \<and> (\<forall>call \<in> set (executed (UpdatePullRequest t workspace repoSlug id1 input w)).
          fst (snd call) =
            ''/repositories/'' @ PathEscape workspace @ ''/'' @ PathEscape repoSlug
            @ ''/pullrequests/'' @ showInt id1)
   \<and> (\<forall>call \<in> set (executed (CommentPullRequest t workspace repoSlug id1 opts w)).
          fst (snd call) =
            ''/repositories/'' @ PathEscape workspace @ ''/'' @ PathEscape repoSlug
            @ ''/pullrequests/'' @ showInt id1 @ ''/comments'')"
proof -
  have independent:
    "isValidationError (result (GetPullRequest t workspace repoSlug id1 w))
      \<longleftrightarrow> isValidationError (result (GetPullRequest t workspace repoSlug id2 w))"
    "isValidationError (result (UpdatePullRequest t workspace repoSlug id1 input w))
      \<longleftrightarrow> isValidationError (result (UpdatePullRequest t workspace repoSlug id2 input w))"
    "isValidationError (result (CommentPullRequest t workspace repoSlug id1 opts w))
      \<longleftrightarrow> isValidationError (result (CommentPullRequest t workspace repoSlug id2 opts w))"
    by (simp_all only: GetPullRequest_validation UpdatePullRequest_validation
        CommentPullRequest_validation)
  have accepted:
    "workspace \<noteq> '''' \<and> repoSlug \<noteq> '''' \<longrightarrow>
        \<not> isValidationError (result (GetPullRequest t workspace repoSlug id1 w))
      \<and> (UpdatePullRequestInput.Title input \<noteq> None
           \<or> UpdatePullRequestInput.Description input \<noteq> None
          \<longrightarrow> \<not> isValidationError (result (UpdatePullRequest t workspace repoSlug id1 input w)))
      \<and> (TrimSpace (Text opts) \<noteq> ''''
           \<and> (FilePath opts \<noteq> '''' \<longrightarrow>
                0 < Line opts \<and> (0 < LineFrom opts \<longrightarrow> LineFrom opts \<le> Line opts))
          \<longrightarrow> \<not> isValidationError (result (CommentPullRequest t workspace repoSlug id1 opts w)))"
    unfolding GetPullRequest_validation UpdatePullRequest_validation
      CommentPullRequest_validation commentPayload_valid
    by blast
  have messages:
    "\<forall>m. result (GetPullRequest t workspace repoSlug id1 w) = Inl (Errorf m)
          \<longrightarrow> m = ''workspace and repository slug are required''"
    "\<forall>m. result (UpdatePullRequest t workspace repoSlug id1 input w) = Inl (Errorf m)
          \<longrightarrow> m = ''workspace and repository slug are required''
            \<or> m = ''at least one field (title or description) must be provided''"
    "\<forall>m. result (CommentPullRequest t workspace repoSlug id1 opts w) = Inl (Errorf m)
          \<longrightarrow> m = ''workspace and repository slug are required''
            \<or> m = ''comment text is required''
            \<or> m = ''line number must be positive when file path is specified''
            \<or> m = rangeError (LineFrom opts) (Line opts)"
    by (blast dest: GetPullRequest_message, blast dest: UpdatePullRequest_message,
        blast dest: CommentPullRequest_message)
  have paths:
    "\<forall>call \<in> set (executed (GetPullRequest t workspace repoSlug id1 w)).
          fst (snd call) =
            ''/repositories/'' @ PathEscape workspace @ ''/'' @ PathEscape repoSlug
            @ ''/pullrequests/'' @ showInt id1"
    "\<forall>call \<in> set (executed (UpdatePullRequest t workspace repoSlug id1 input w)).
          fst (snd call) =
            ''/repositories/'' @ PathEscape workspace @ ''/'' @ PathEscape repoSlug
            @ ''/pullrequests/'' @ showInt id1"
    "\<forall>call \<in> set (executed (CommentPullRequest t workspace repoSlug id1 opts w)).
          fst (snd call) =
            ''/repositories/'' @ PathEscape workspace @ ''/'' @ PathEscape repoSlug
            @ ''/pullrequests/'' @ showInt id1 @ ''/comments''"
    using GetPullRequest_path [of _ t workspace repoSlug id1 w]
      UpdatePullRequest_path [of _ t workspace repoSlug id1 input w]
      CommentPullRequest_path [of _ t workspace repoSlug id1 opts w]
    by (simp_all add: pullRequestPath_def)
  from independent accepted messages paths show ?thesis
    by (intro conjI)
qed

theorem id_not_validated_witness:
  "\<not> isValidationError (result (GetPullRequest (testServer []) ''ws'' ''repo'' 0 0))
   \<and> executed (GetPullRequest (testServer []) ''ws'' ''repo'' 0 0) =
       [(''GET'', ''/repositories/ws/repo/pullrequests/0'', None)]
   \<and> \<not> isValidationError (result (UpdatePullRequest (testServer []) ''ws'' ''repo'' (- 3)
       \<lparr>UpdatePullRequestInput.Title = Some ''New title'',
        UpdatePullRequestInput.Description = None\<rparr> 0))
   \<and> map (\<lambda>call. fst (snd call))
       (executed (UpdatePullRequest (testServer []) ''ws'' ''repo'' (- 3)
         \<lparr>UpdatePullRequestInput.Title = Some ''New title'',
          UpdatePullRequestInput.Description = None\<rparr> 0)) =
       [''/repositories/ws/repo/pullrequests/-3'']
   \<and> \<not> isValidationError (result (CommentPullRequest (testServer []) ''ws'' ''repo'' (- 3)
       \<lparr>Text = ''Looks good!'', FilePath = '''', Line = 0, LineFrom = 0\<rparr> 0))
   \<and> map (\<lambda>call. fst (snd call))
       (executed (CommentPullRequest (testServer []) ''ws'' ''repo'' (- 3)
         \<lparr>Text = ''Looks good!'', FilePath = '''', Line = 0, LineFrom = 0\<rparr> 0)) =
       [''/repositories/ws/repo/pullrequests/-3/comments'']"
proof -
  let ?input = "\<lparr>UpdatePullRequestInput.Title = Some ''New title'',
    UpdatePullRequestInput.Description = None\<rparr>"
  let ?opts = "\<lparr>Text = ''Looks good!'', FilePath = '''', Line = 0, LineFrom = 0\<rparr>"
  note th = id_not_validated [where t = "testServer []" and workspace = "''ws''"
      and repoSlug = "''repo''" and w = 0 and input = ?input and opts = ?opts]
  have valid:
    "\<not> isValidationError (result (GetPullRequest (testServer []) ''ws'' ''repo'' 0 0))"
    "\<not> isValidationError (result (UpdatePullRequest (testServer []) ''ws'' ''repo'' (- 3) ?input 0))"
    "\<not> isValidationError (result (CommentPullRequest (testServer []) ''ws'' ''repo'' (- 3) ?opts 0))"
    using th [of 0 0] th [of "- 3" 0]
    by (simp_all add: TrimSpace_samples)
  have get: "executed (GetPullRequest (testServer []) ''ws'' ''repo'' 0 0) =
      [(''GET'', ''/repositories/ws/repo/pullrequests/0'', None)]"
    by (simp add: GetPullRequest_def testServer_def paths_samples)
  have update: "map (\<lambda>call. fst (snd call))
      (executed (UpdatePullRequest (testServer []) ''ws'' ''repo'' (- 3) ?input 0)) =
      [''/repositories/ws/repo/pullrequests/-3'']"
    by (simp add: UpdatePullRequest_def updateBody_cases testServer_def paths_samples)
  have comment: "map (\<lambda>call. fst (snd call))
      (executed (CommentPullRequest (testServer []) ''ws'' ''repo'' (- 3) ?opts 0)) =
      [''/repositories/ws/repo/pullrequests/-3/comments'']"
    by (simp add: CommentPullRequest_def commentPayload_cases TrimSpace_samples testServer_def
        paths_samples)
  from valid get update comment show ?thesis
    by (intro conjI)
qed

text \<open>
  C10. When FilePath is empty, CommentPullRequest ignores Line and LineFrom: with any
  other values for them the outcome is the same; the result is never one of the two
  line errors; and no payload built or sent has an inline key.
\<close>

theorem comment_without_path_ignores_lines:
  assumes "FilePath opts = ''''"
  shows
    "CommentPullRequest t workspace repoSlug id' (opts\<lparr>Line := line, LineFrom := lineFrom\<rparr>) w =
       CommentPullRequest t workspace repoSlug id' opts w
     \<and> result (CommentPullRequest t workspace repoSlug id' opts w) \<noteq>
         Inl (Errorf ''line number must be positive when file path is specified'')
     \<and> (\<forall>a b. result (CommentPullRequest t workspace repoSlug id' opts w) \<noteq>
         Inl (Errorf (rangeError a b)))
     \<and> (case commentPayload opts of
          Inl e \<Rightarrow> e = Errorf ''comment text is required''
        | Inr payload \<Rightarrow> payload ''inline'' = None)
     \<and> (\<forall>call \<in> set (executed (CommentPullRequest t workspace repoSlug id' opts w)).
          field ''inline'' (snd (snd call)) = None)"
  using assms
  by (auto simp: CommentPullRequest_def commentPayload_def rangeError_def Let_def
      split: sum.splits prod.splits)

theorem comment_without_path_ignores_lines_witness:
  "CommentPullRequest (testServer []) ''ws'' ''repo'' 1
      \<lparr>Text = ''Looks good!'', FilePath = '''', Line = - 3, LineFrom = 20\<rparr> 0 =
    (Inr testComment,
     [(''POST'', ''/repositories/ws/repo/pullrequests/1/comments'',
       Some (JObject [''content'' \<mapsto> JObject [''raw'' \<mapsto> JString ''Looks good!'']]))], 1)
   \<and> field ''inline''
        (Some (JObject [''content'' \<mapsto> JObject [''raw'' \<mapsto> JString ''Looks good!'']])) = None"
proof -
  let ?opts = "\<lparr>Text = ''Looks good!'', FilePath = '''', Line = 0, LineFrom = 0\<rparr>"
  have h: "FilePath ?opts = ''''" by simp
  have same:
    "CommentPullRequest (testServer []) ''ws'' ''repo'' 1 (?opts\<lparr>Line := - 3, LineFrom := 20\<rparr>) 0 =
     CommentPullRequest (testServer []) ''ws'' ''repo'' 1 ?opts 0"
    using comment_without_path_ignores_lines
      [OF h, where t = "testServer []" and workspace = "''ws''" and repoSlug = "''repo''"
       and id' = 1 and line = "- 3" and lineFrom = 20 and w = 0]
    by blast
  have "CommentPullRequest (testServer []) ''ws'' ''repo'' 1 ?opts 0 =
    (Inr testComment,
     [(''POST'', pullRequestPath ''ws'' ''repo'' 1 @ ''/comments'',
       Some (JObject [''content'' \<mapsto> JObject [''raw'' \<mapsto> JString ''Looks good!'']]))], 1)"
    by (simp add: CommentPullRequest_def commentPayload_def TrimSpace_samples testServer_def)
  with same show ?thesis
    by (simp add: path_ws_repo_1_comments)
qed

end
